theory Spec2Isabelle
  imports Complex_Main
begin

section \<open>Python errors\<close>

text \<open>
  The notebooks raise only \<open>ValueError\<close> themselves; the other constructors are the
  exceptions that Python and numpy raise inside the modelled functions (an index out
  of range, a missing dictionary key, a value of the wrong type, a float division by
  the integer zero, a local variable read before assignment, a least-squares call
  on incompatible dimensions).
\<close>

datatype error =
  ValueError | IndexError | KeyError | TypeError | ZeroDivisionError
  | UnboundLocalError | LinAlgError

section \<open>numpy arrays\<close>

text \<open>
  A two-dimensional numpy array of floats is its shape together with its entries,
  read by row and column index; an entry outside the shape is never read by the
  operations below. Floats are modelled as exact reals: rounding, overflow and
  \<open>nan\<close> are outside the model. A Python scalar and a one-dimensional array of
  length \<open>n\<close> stand as arrays of shape \<open>(1, 1)\<close> and \<open>(1, n)\<close>, which is how numpy
  broadcasts them against two-dimensional arrays.
\<close>

record ndarray =
  nrows :: nat
  ncols :: nat
  entry :: "nat \<Rightarrow> nat \<Rightarrow> real"

text \<open>
  Every array the operations build is made by \<open>mk_array\<close>, which fixes the entries
  outside the shape (to \<open>0\<close>; they are not part of the array), so that two arrays
  are equal when their shapes and the entries inside them are equal.
\<close>

definition mk_array :: "nat \<Rightarrow> nat \<Rightarrow> (nat \<Rightarrow> nat \<Rightarrow> real) \<Rightarrow> ndarray" where
  "mk_array r c f =
     \<lparr>nrows = r, ncols = c, entry = (\<lambda>i j. if i < r \<and> j < c then f i j else 0)\<rparr>"

definition shape :: "ndarray \<Rightarrow> nat \<times> nat" where
  "shape A = (nrows A, ncols A)"

text \<open>\<open>np.array\<close> of a list of rows (all of the length of the first).\<close>

definition np_array :: "real list list \<Rightarrow> ndarray" where
  "np_array rs =
     mk_array (length rs) (case rs of [] \<Rightarrow> 0 | r # _ \<Rightarrow> length r) (\<lambda>i j. rs ! i ! j)"

definition np_full :: "nat \<Rightarrow> nat \<Rightarrow> real \<Rightarrow> ndarray" where
  "np_full r c v = mk_array r c (\<lambda>i j. v)"

definition np_zeros :: "nat \<Rightarrow> nat \<Rightarrow> ndarray" where
  "np_zeros r c = np_full r c 0"

definition np_ones :: "nat \<Rightarrow> nat \<Rightarrow> ndarray" where
  "np_ones r c = np_full r c 1"

text \<open>\<open>A.T\<close>.\<close>

definition np_T :: "ndarray \<Rightarrow> ndarray" where
  "np_T A = mk_array (ncols A) (nrows A) (\<lambda>i j. entry A j i)"

text \<open>An operation applied to every entry: \<open>c * A\<close>, \<open>A ** 2\<close>, \<open>np.exp(A)\<close>, \<open>np.sqrt(A)\<close>.\<close>

definition np_map :: "(real \<Rightarrow> real) \<Rightarrow> ndarray \<Rightarrow> ndarray" where
  "np_map f A = mk_array (nrows A) (ncols A) (\<lambda>i j. f (entry A i j))"

text \<open>The rows of the array as lists, and \<open>A.ravel()\<close>: the entries in row-major order.\<close>

definition rows_of :: "ndarray \<Rightarrow> real list list" where
  "rows_of A = map (\<lambda>i. map (entry A i) [0 ..< ncols A]) [0 ..< nrows A]"

definition np_ravel :: "ndarray \<Rightarrow> real list" where
  "np_ravel A = concat (rows_of A)"

text \<open>\<open>np.sum(A)\<close>.\<close>

definition np_sum :: "ndarray \<Rightarrow> real" where
  "np_sum A = (\<Sum>i\<leftarrow>[0 ..< nrows A]. \<Sum>j\<leftarrow>[0 ..< ncols A]. entry A i j)"

text \<open>Sequencing of computations that may raise: the first exception ends the run.\<close>

primrec bindE :: "error + 'a \<Rightarrow> ('a \<Rightarrow> error + 'b) \<Rightarrow> error + 'b" where
  "bindE (Inl e) f = Inl e"
| "bindE (Inr x) f = f x"

text \<open>
  \<open>A @ B\<close>: numpy raises \<open>ValueError\<close> unless the inner dimensions agree. A sum over
  an empty inner dimension is \<open>0\<close>.
\<close>

definition np_matmul :: "ndarray \<Rightarrow> ndarray \<Rightarrow> error + ndarray" where
  "np_matmul A B =
     (if ncols A = nrows B
      then Inr (mk_array (nrows A) (ncols B)
                  (\<lambda>i j. \<Sum>k\<leftarrow>[0 ..< ncols A]. entry A i k * entry B k j))
      else Inl ValueError)"

text \<open>
  Broadcasting of one dimension: equal lengths, or one of them \<open>1\<close> (stretched to the
  other); anything else is a \<open>ValueError\<close>.
\<close>

definition bdim :: "nat \<Rightarrow> nat \<Rightarrow> nat option" where
  "bdim a b = (if a = b then Some a else if a = 1 then Some b else if b = 1 then Some a else None)"

definition bidx :: "nat \<Rightarrow> nat \<Rightarrow> nat" where
  "bidx n i = (if n = 1 then 0 else i)"

definition np_bin :: "(real \<Rightarrow> real \<Rightarrow> real) \<Rightarrow> ndarray \<Rightarrow> ndarray \<Rightarrow> error + ndarray" where
  "np_bin f A B =
     (case (bdim (nrows A) (nrows B), bdim (ncols A) (ncols B)) of
        (Some r, Some c) \<Rightarrow>
          Inr (mk_array r c
                 (\<lambda>i j. f (entry A (bidx (nrows A) i) (bidx (ncols A) j))
                           (entry B (bidx (nrows B) i) (bidx (ncols B) j))))
      | _ \<Rightarrow> Inl ValueError)"

definition np_add :: "ndarray \<Rightarrow> ndarray \<Rightarrow> error + ndarray" where
  "np_add = np_bin (+)"

definition np_sub :: "ndarray \<Rightarrow> ndarray \<Rightarrow> error + ndarray" where
  "np_sub = np_bin (-)"

definition np_mul :: "ndarray \<Rightarrow> ndarray \<Rightarrow> error + ndarray" where
  "np_mul = np_bin (*)"


text \<open>
  \<open>A[idx, :]\<close> for a list of row indices (a copy of the selected rows, in the order of
  \<open>idx\<close>); \<open>IndexError\<close> when one of them is not a row of \<open>A\<close>.
\<close>

definition np_take_rows :: "ndarray \<Rightarrow> nat list \<Rightarrow> error + ndarray" where
  "np_take_rows A idx =
     (if \<forall>i \<in> set idx. i < nrows A
      then Inr (mk_array (length idx) (ncols A) (\<lambda>i j. entry A (idx ! i) j))
      else Inl IndexError)"

text \<open>\<open>A[1:, :]\<close>: all rows but the first (none when \<open>A\<close> has no row).\<close>

definition np_tail_rows :: "ndarray \<Rightarrow> ndarray" where
  "np_tail_rows A = mk_array (nrows A - 1) (ncols A) (\<lambda>i j. entry A (i + 1) j)"

text \<open>\<open>np.vstack((A, B))\<close>: the rows of \<open>A\<close> above those of \<open>B\<close>.\<close>

definition np_vstack :: "ndarray \<Rightarrow> ndarray \<Rightarrow> error + ndarray" where
  "np_vstack A B =
     (if ncols A = ncols B
      then Inr (mk_array (nrows A + nrows B) (ncols A)
                  (\<lambda>i j. if i < nrows A then entry A i j else entry B (i - nrows A) j))
      else Inl ValueError)"

section \<open>Linear least squares by gradient descent: \<open>LLS_by_GD\<close>\<close>





section \<open>The model dictionary\<close>

text \<open>
  The notebooks pass one Python dictionary (\<open>model\<close>) through training: it holds the
  hyperparameters, and the trainers store their results in it. A value is an integer,
  a float, a string, an array, or a list of floats (the cost history, where \<open>None\<close>
  is numpy's \<open>nan\<close>). The dictionary is mutated in place and is the caller's object,
  so every function that writes to it returns the dictionary as it stands when the
  function returns or raises.

  A hyperparameter is read at its documented type: a number where a number is
  expected. For a value of another type Python raises \<open>TypeError\<close> at the operation
  that uses it, which is where the model converts it.
\<close>

datatype pyval =
  PyInt int | PyFloat real | PyStr string | PyArray ndarray | PyList "real option list"

type_synonym model = "string \<rightharpoonup> pyval"

definition getitem :: "model \<Rightarrow> string \<Rightarrow> error + pyval" where
  "getitem m k = (case m k of None \<Rightarrow> Inl KeyError | Some v \<Rightarrow> Inr v)"

definition as_int :: "pyval \<Rightarrow> error + int" where
  "as_int v = (case v of PyInt n \<Rightarrow> Inr n | _ \<Rightarrow> Inl TypeError)"

definition as_float :: "pyval \<Rightarrow> error + real" where
  "as_float v =
     (case v of PyInt n \<Rightarrow> Inr (real_of_int n) | PyFloat r \<Rightarrow> Inr r | _ \<Rightarrow> Inl TypeError)"

text \<open>
  A dimension of \<open>np.ones\<close>, \<open>np.zeros\<close> or \<open>np.random.rand\<close>: an integer, and not
  negative (\<open>ValueError\<close>).
\<close>

definition as_dim :: "int \<Rightarrow> error + nat" where
  "as_dim n = (if n < 0 then Inl ValueError else Inr (nat n))"

section \<open>Multi-layer perceptron\<close>

definition MLP_sigmoid :: "real \<Rightarrow> real" where
  "MLP_sigmoid z = 1 / (1 + exp (- z))"

definition MLP_sigmoid_derivative :: "ndarray \<Rightarrow> error + ndarray" where
  "MLP_sigmoid_derivative rZ =
     (let sigma_of_rZ = np_map MLP_sigmoid rZ
      in np_mul sigma_of_rZ (np_map (\<lambda>s. 1 - s) sigma_of_rZ))"

text \<open>
  \<open>MLP_MSE_cost\<close> (its arguments \<open>model\<close>, \<open>W1\<close>, \<open>W2\<close> are unused, and \<open>y_true\<close> is
  two-dimensional at its only call). On an empty batch the quotient is \<open>0.0 / 0\<close>
  between numpy floats: \<open>nan\<close>, with a warning and no exception.
\<close>

definition MLP_MSE_cost :: "ndarray \<Rightarrow> ndarray \<Rightarrow> error + real option" where
  "MLP_MSE_cost y_true y_pred =
     bindE (np_sub y_true y_pred) (\<lambda>d.
       if ncols y_true = 0 then Inr None
       else Inr (Some (np_sum (np_map (\<lambda>r. r ^ 2) d) / (2 * real (ncols y_true)))))"

text \<open>
  \<open>MLP_initialize_weights\<close>. The two calls of \<open>np.random.rand\<close> are inputs of the
  model: \<open>u1 i j\<close> and \<open>u2 i j\<close> are the numbers drawn for the entries of the first and
  of the second array.
\<close>

definition MLP_initialize_weights ::
  "(nat \<Rightarrow> nat \<Rightarrow> real) \<Rightarrow> (nat \<Rightarrow> nat \<Rightarrow> real) \<Rightarrow> model \<Rightarrow> error + (ndarray \<times> ndarray)" where
  "MLP_initialize_weights u1 u2 m =
     bindE (getitem m ''n_hidden'') (\<lambda>n_hidden.
     bindE (getitem m ''n_features'') (\<lambda>n_features.
     bindE (getitem m ''n_output'') (\<lambda>n_output.
     bindE (as_int n_hidden) (\<lambda>h.
     bindE (as_int n_features) (\<lambda>d.
     bindE (as_dim h) (\<lambda>r1.
     bindE (as_dim (d + 1)) (\<lambda>c1.
     let W1 = np_map (\<lambda>u. 2 * u - 1) (mk_array r1 c1 u1) in
     bindE (as_int n_output) (\<lambda>out.
     bindE (as_dim out) (\<lambda>r2.
     bindE (as_dim (h + 1)) (\<lambda>c2.
     let W2 = np_map (\<lambda>u. 2 * u - 1) (mk_array r2 c2 u2) in
     Inr (W1, W2)))))))))))"

definition MLP_MSELIN_forward ::
  "ndarray \<Rightarrow> ndarray \<Rightarrow> ndarray \<Rightarrow> error + (ndarray \<times> ndarray \<times> ndarray \<times> ndarray)" where
  "MLP_MSELIN_forward P_input W1 W2 =
     (let batch_size = nrows P_input in
      bindE (np_vstack (np_ones 1 batch_size) (np_T P_input)) (\<lambda>A0.
      bindE (np_matmul W1 A0) (\<lambda>rZ1.
      let rA1 = np_map MLP_sigmoid rZ1 in
      bindE (np_vstack (np_ones 1 batch_size) rA1) (\<lambda>A1.
      bindE (np_matmul W2 A1) (\<lambda>rA2.
      Inr (rA2, A1, A0, rZ1))))))"

definition MLP_MSELIN_backprop ::
  "ndarray \<Rightarrow> ndarray \<Rightarrow> ndarray \<Rightarrow> ndarray \<Rightarrow> ndarray \<Rightarrow> ndarray \<Rightarrow> ndarray
    \<Rightarrow> error + (ndarray \<times> ndarray)" where
  "MLP_MSELIN_backprop rA2 A1 A0 rZ1 Y_true W1 W2 =
     bindE (np_sub rA2 Y_true) (\<lambda>dL_dZ2.
     bindE (np_matmul dL_dZ2 (np_T A1)) (\<lambda>dL_dW2.
     bindE (np_matmul (np_T W2) dL_dZ2) (\<lambda>dL_dA1.
     bindE (MLP_sigmoid_derivative rZ1) (\<lambda>sigma_prime_of_rZ1.
     bindE (np_mul (np_tail_rows dL_dA1) sigma_prime_of_rZ1) (\<lambda>dL_drZ1.
     bindE (np_matmul dL_drZ1 (np_T A0)) (\<lambda>dL_dW1.
     Inr (dL_dW1, dL_dW2)))))))"


text \<open>
  \<open>np.array_split(np.arange(N), M)\<close> for a section count \<open>M > 0\<close>, as numpy documents
  it: \<open>N mod M\<close> sections of \<open>N div M + 1\<close> consecutive indices, then the others of
  \<open>N div M\<close>.
\<close>

definition section_sizes :: "nat \<Rightarrow> nat \<Rightarrow> nat list" where
  "section_sizes N M = replicate (N mod M) (N div M + 1) @ replicate (M - N mod M) (N div M)"

fun sections_from :: "nat \<Rightarrow> nat list \<Rightarrow> nat list list" where
  "sections_from start [] = []"
| "sections_from start (n # ns) = [start ..< start + n] # sections_from (start + n) ns"

text \<open>
  The section count as \<open>np.array_split\<close> reads it: an integer, or a float truncated
  by \<open>int(...)\<close>; \<open>ValueError\<close> unless it is positive.
\<close>

definition array_split_arange :: "nat \<Rightarrow> pyval \<Rightarrow> error + nat list list" where
  "array_split_arange N sections =
     bindE (case sections of
              PyInt n \<Rightarrow> Inr n
            | PyFloat r \<Rightarrow> Inr (if 0 \<le> r then \<lfloor>r\<rfloor> else \<lceil>r\<rceil>)
            | _ \<Rightarrow> Inl TypeError) (\<lambda>Nsections.
       if Nsections \<le> 0 then Inl ValueError
       else Inr (sections_from 0 (section_sizes N (nat Nsections))))"

text \<open>
  A loop whose body changes a state that outlives an exception (the cost history
  inside the caller's dictionary): the result is the state reached, and the
  exception if one ended the loop.
\<close>

fun for_each :: "'a list \<Rightarrow> ('a \<Rightarrow> 's \<Rightarrow> 's \<times> error option) \<Rightarrow> 's \<Rightarrow> 's \<times> error option" where
  "for_each [] body s = (s, None)"
| "for_each (x # xs) body s =
     (case body x s of
        (s', None) \<Rightarrow> for_each xs body s'
      | (s', Some e) \<Rightarrow> (s', Some e))"

text \<open>
  What one mini-batch computes from the weights: the cost, and then the updated
  weights. An exception before the cost is known leaves nothing to append.
\<close>

definition MLP_minibatch_cost ::
  "ndarray \<Rightarrow> ndarray \<Rightarrow> nat list \<Rightarrow> ndarray \<Rightarrow> ndarray
    \<Rightarrow> error + (real option \<times> ndarray \<times> ndarray \<times> ndarray \<times> ndarray \<times> ndarray)" where
  "MLP_minibatch_cost P_shuffled y_shuffled idx W1 W2 =
     bindE (np_take_rows P_shuffled idx) (\<lambda>P_mini_batch.
     bindE (np_take_rows y_shuffled idx) (\<lambda>y_rows.
     let y_mini_batch = np_T y_rows in
     bindE (MLP_MSELIN_forward P_mini_batch W1 W2) (\<lambda>(rA2, A1, A0, rZ1).
     bindE (MLP_MSE_cost y_mini_batch rA2) (\<lambda>cost.
     Inr (cost, rA2, A1, A0, rZ1, y_mini_batch)))))"

definition MLP_minibatch_update ::
  "pyval \<Rightarrow> ndarray \<Rightarrow> ndarray \<Rightarrow> ndarray \<Rightarrow> ndarray \<Rightarrow> ndarray \<Rightarrow> ndarray \<Rightarrow> ndarray
    \<Rightarrow> error + (ndarray \<times> ndarray)" where
  "MLP_minibatch_update current_eta rA2 A1 A0 rZ1 y_mini_batch W1 W2 =
     bindE (MLP_MSELIN_backprop rA2 A1 A0 rZ1 y_mini_batch W1 W2)
       (\<lambda>(delta_W1_unscaled, delta_W2_unscaled).
     bindE (as_float current_eta) (\<lambda>c.
     let delta_W1 = np_map (\<lambda>g. c * g) delta_W1_unscaled;
         delta_W2 = np_map (\<lambda>g. c * g) delta_W2_unscaled in
     bindE (np_sub W1 delta_W1) (\<lambda>W1'.
     bindE (np_sub W2 delta_W2) (\<lambda>W2'.
     Inr (W1', W2')))))"

text \<open>
  The body of \<open>for m_idx, idx in enumerate(mini_batch_indices)\<close>; the state is
  \<open>(W1, W2, model['cost_history'])\<close>. The cost is appended before backpropagation, so
  it stays in the history when a later step of the same mini-batch raises.
\<close>

definition MLP_minibatch ::
  "ndarray \<Rightarrow> ndarray \<Rightarrow> pyval \<Rightarrow> nat list \<Rightarrow> ndarray \<times> ndarray \<times> real option list
    \<Rightarrow> (ndarray \<times> ndarray \<times> real option list) \<times> error option" where
  "MLP_minibatch P_shuffled y_shuffled current_eta idx s =
     (case s of (W1, W2, cost_history) \<Rightarrow>
        (case MLP_minibatch_cost P_shuffled y_shuffled idx W1 W2 of
           Inl e \<Rightarrow> ((W1, W2, cost_history), Some e)
         | Inr (cost, rA2, A1, A0, rZ1, y_mini_batch) \<Rightarrow>
             (case MLP_minibatch_update current_eta rA2 A1 A0 rZ1 y_mini_batch W1 W2 of
                Inl e \<Rightarrow> ((W1, W2, cost_history @ [cost]), Some e)
              | Inr (W1', W2') \<Rightarrow> ((W1', W2', cost_history @ [cost]), None))))"

text \<open>
  The body of \<open>for e in range(1, epochs + 1)\<close>. \<open>permutation e\<close> is the array that
  \<open>np.random.permutation(num_observations)\<close> returns in epoch \<open>e\<close>: an input of the
  model.
\<close>

definition MLP_epoch ::
  "(nat \<Rightarrow> nat list) \<Rightarrow> ndarray \<Rightarrow> ndarray \<Rightarrow> pyval \<Rightarrow> pyval \<Rightarrow> nat
    \<Rightarrow> ndarray \<times> ndarray \<times> real option list
    \<Rightarrow> (ndarray \<times> ndarray \<times> real option list) \<times> error option" where
  "MLP_epoch permutation P_train y_train eta minibatches e s =
     (let num_observations = nrows P_train;
          shuffled_indices = permutation e
      in case bindE (np_take_rows P_train shuffled_indices) (\<lambda>P_shuffled.
              bindE (np_take_rows y_train shuffled_indices) (\<lambda>y_shuffled.
              bindE (array_split_arange num_observations minibatches) (\<lambda>mini_batch_indices.
              Inr (P_shuffled, y_shuffled, mini_batch_indices)))) of
           Inl err \<Rightarrow> (s, Some err)
         | Inr (P_shuffled, y_shuffled, mini_batch_indices) \<Rightarrow>
             for_each mini_batch_indices (MLP_minibatch P_shuffled y_shuffled eta) s)"

text \<open>
  \<open>MLP_MSELIN_train\<close>. The result is the dictionary as the call leaves it, and
  either the exception raised or the returned weights (the returned \<open>model\<close> is the
  caller's dictionary itself).
\<close>

definition MLP_MSELIN_train ::
  "(nat \<Rightarrow> nat \<Rightarrow> real) \<Rightarrow> (nat \<Rightarrow> nat \<Rightarrow> real) \<Rightarrow> (nat \<Rightarrow> nat list)
    \<Rightarrow> ndarray \<Rightarrow> ndarray \<Rightarrow> model \<Rightarrow> model \<times> (error + (ndarray \<times> ndarray))" where
  "MLP_MSELIN_train u1 u2 permutation P_train y_train m =
     (case bindE (MLP_initialize_weights u1 u2 m) (\<lambda>(W1, W2).
           bindE (getitem m ''eta'') (\<lambda>eta.
           bindE (getitem m ''epochs'') (\<lambda>epochs.
           bindE (getitem m ''minibatches'') (\<lambda>minibatches.
           Inr (W1, W2, eta, epochs, minibatches))))) of
        Inl err \<Rightarrow> (m, Inl err)
      | Inr (W1, W2, eta, epochs, minibatches) \<Rightarrow>
          (let m1 = m(''cost_history'' \<mapsto> PyList [])
           in case as_int epochs of
                Inl err \<Rightarrow> (m1, Inl err)
              | Inr n \<Rightarrow>
                  (case for_each [1 ..< nat (n + 1)]
                          (MLP_epoch permutation P_train y_train eta minibatches) (W1, W2, [])
                   of
                     ((W1', W2', cost_history), Some err) \<Rightarrow>
                       (m1(''cost_history'' \<mapsto> PyList cost_history), Inl err)
                   | ((W1', W2', cost_history), None) \<Rightarrow>
                       (m1(''cost_history'' \<mapsto> PyList cost_history,
                           ''W1'' \<mapsto> PyArray W1', ''W2'' \<mapsto> PyArray W2'),
                        Inr (W1', W2')))))"

section \<open>Radial basis function network, one-dimensional notebook\<close>

definition RBF_extend :: "ndarray \<Rightarrow> error + ndarray" where
  "RBF_extend X = np_vstack (np_ones 1 (ncols X)) X"

text \<open>
  \<open>np.sum((W1[:, :, np.newaxis] - rA0[np.newaxis, :, :])**2, axis=1)\<close>: the operands
  have the shapes \<open>(H, D, 1)\<close> and \<open>(1, D', B)\<close>, broadcast along the middle axis, which
  is then summed.
\<close>

definition np_sum_sq_diff_axis1 :: "ndarray \<Rightarrow> ndarray \<Rightarrow> error + ndarray" where
  "np_sum_sq_diff_axis1 W1 rA0 =
     (case bdim (ncols W1) (nrows rA0) of
        None \<Rightarrow> Inl ValueError
      | Some d \<Rightarrow>
          Inr (mk_array (nrows W1) (ncols rA0)
                 (\<lambda>i j. \<Sum>k\<leftarrow>[0 ..< d].
                    (entry W1 i (bidx (ncols W1) k) - entry rA0 (bidx (nrows rA0) k) j) ^ 2)))"

definition RBF_forward ::
  "ndarray \<Rightarrow> ndarray \<Rightarrow> ndarray \<Rightarrow> pyval \<Rightarrow> error + (ndarray \<times> ndarray)" where
  "RBF_forward P W1 W2 epsilon =
     (let rA0 = np_T P in
      bindE (np_sum_sq_diff_axis1 W1 rA0) (\<lambda>sq.
      let rZ1 = np_map sqrt sq in
      bindE (as_float epsilon) (\<lambda>eps.
      let rA1 = np_map (\<lambda>z. exp (- (eps ^ 2 * z ^ 2))) rZ1 in
      bindE (RBF_extend rA1) (\<lambda>A1.
      bindE (np_matmul W2 A1) (\<lambda>rZ2.
      let rA2 = rZ2 in
      Inr (rA2, A1))))))"

text \<open>Python's \<open>xs[:n]\<close>: a negative \<open>n\<close> counts from the end.\<close>

definition py_take :: "int \<Rightarrow> 'a list \<Rightarrow> 'a list" where
  "py_take n xs = (if 0 \<le> n then take (nat n) xs else take (length xs - nat (- n)) xs)"

text \<open>Python's \<open>v != k\<close> for an integer literal \<open>k\<close>.\<close>

definition py_ne_int :: "pyval \<Rightarrow> int \<Rightarrow> bool" where
  "py_ne_int v k = (case v of PyInt n \<Rightarrow> n \<noteq> k | PyFloat r \<Rightarrow> r \<noteq> real_of_int k | _ \<Rightarrow> True)"

text \<open>
  \<open>RBF_initialize_centres\<close>. Inputs of the model: \<open>permutation n\<close> is what
  \<open>np.random.permutation(n)\<close> returns, and \<open>kmeans k X\<close> the \<open>cluster_centers_\<close> of
  scikit-learn's \<open>KMeans\<close> with \<open>k\<close> clusters fitted to \<open>X\<close> (or the exception it
  raises). The result is the dictionary as the call leaves it, and the exception
  raised or the centres.
\<close>

definition RBF_initialize_centres ::
  "(nat \<Rightarrow> nat list) \<Rightarrow> (int \<Rightarrow> ndarray \<Rightarrow> error + ndarray)
    \<Rightarrow> model \<Rightarrow> ndarray \<Rightarrow> ndarray \<Rightarrow> model \<times> (error + ndarray)" where
  "RBF_initialize_centres permutation kmeans m Xtrain ytrain =
     (case bindE (getitem m ''centres_generation_method'') (\<lambda>method.
           bindE (getitem m ''n_hidden'') (\<lambda>n_hidden. Inr (method, n_hidden))) of
        Inl err \<Rightarrow> (m, Inl err)
      | Inr (method, n_hidden) \<Rightarrow>
          if method = PyStr ''random'' then
            (let idx = permutation (nrows Xtrain)
             in case bindE (as_int n_hidden) (\<lambda>n. np_take_rows Xtrain (py_take n idx)) of
                  Inl err \<Rightarrow> (m, Inl err)
                | Inr W1 \<Rightarrow> (m(''W1'' \<mapsto> PyArray W1), Inr W1))
          else if method = PyStr ''clustering'' then
            (case bindE (as_int n_hidden) (\<lambda>n. kmeans n Xtrain) of
               Inl err \<Rightarrow> (m, Inl err)
             | Inr W1 \<Rightarrow> (m(''W1'' \<mapsto> PyArray W1), Inr W1))
          else if method = PyStr ''debug'' then
            (let m1 = (if py_ne_int n_hidden 3 then m(''n_hidden'' \<mapsto> PyInt 3) else m)
             in if ncols Xtrain = 1 then
                  (let W1 = np_array [[-8], [-1], [7]] in (m1(''W1'' \<mapsto> PyArray W1), Inr W1))
                else if ncols Xtrain = 2 then
                  (let W1 = np_array [[-8, -8], [-1, -1], [7, 7]]
                   in (m1(''W1'' \<mapsto> PyArray W1), Inr W1))
                else (m1, Inl ValueError))
          else (m, Inl ValueError))"

text \<open>
  \<open>RBF_train_offline\<close>. \<open>lstsq A b\<close> is the solution vector that
  \<open>np.linalg.lstsq(A, b, rcond=None)[0]\<close> returns, an input of the model; numpy
  raises \<open>LinAlgError\<close> when \<open>A\<close> and \<open>b\<close> differ in their number of rows.
\<close>

definition RBF_train_offline ::
  "(nat \<Rightarrow> nat list) \<Rightarrow> (int \<Rightarrow> ndarray \<Rightarrow> error + ndarray) \<Rightarrow> (ndarray \<Rightarrow> real list \<Rightarrow> real list)
    \<Rightarrow> ndarray \<Rightarrow> ndarray \<Rightarrow> model \<Rightarrow> model \<times> (error + (ndarray \<times> ndarray))" where
  "RBF_train_offline permutation kmeans lstsq X y m =
     (case RBF_initialize_centres permutation kmeans m X y of
        (m1, Inl err) \<Rightarrow> (m1, Inl err)
      | (m1, Inr W1) \<Rightarrow>
          (case bindE (getitem m1 ''n_hidden'') (\<lambda>n_hidden.
                bindE (as_int n_hidden) (\<lambda>h.
                bindE (as_dim (h + 1)) (\<lambda>c.
                bindE (getitem m1 ''epsilon'') (\<lambda>epsilon.
                bindE (RBF_forward X W1 (np_ones 1 c) epsilon) (\<lambda>(rA2, A1).
                let y_flat = np_ravel y in
                bindE (if nrows (np_T A1) = length y_flat
                       then Inr (lstsq (np_T A1) y_flat) else Inl LinAlgError) (\<lambda>sol.
                let W2 = np_array [sol] in
                Inr W2)))))) of
             Inl err \<Rightarrow> (m1, Inl err)
           | Inr W2 \<Rightarrow> (m1(''W2'' \<mapsto> PyArray W2), Inr (W1, W2))))"

definition RBF_predict :: "ndarray \<Rightarrow> ndarray \<Rightarrow> ndarray \<Rightarrow> pyval \<Rightarrow> error + ndarray" where
  "RBF_predict X W1 W2 epsilon =
     bindE (RBF_forward X W1 W2 epsilon) (\<lambda>(y_pred, A1). Inr y_pred)"

section \<open>Radial basis function network, two-dimensional notebook\<close>

text \<open>
  The second notebook defines its own \<open>RBF_train_offline\<close> and \<open>RBF_predict\<close>; they
  carry the suffix \<open>_2D\<close> here.

  \<open>((X[:, np.newaxis, :] - W1[np.newaxis, :, :])**2).sum(axis=2)\<close>: the operands have
  the shapes \<open>(N, 1, D')\<close> and \<open>(1, H, D)\<close>, broadcast along the last axis, which is
  then summed.
\<close>

definition np_sum_sq_diff_axis2 :: "ndarray \<Rightarrow> ndarray \<Rightarrow> error + ndarray" where
  "np_sum_sq_diff_axis2 X W1 =
     (case bdim (ncols X) (ncols W1) of
        None \<Rightarrow> Inl ValueError
      | Some d \<Rightarrow>
          Inr (mk_array (nrows X) (nrows W1)
                 (\<lambda>i j. \<Sum>k\<leftarrow>[0 ..< d].
                    (entry X i (bidx (ncols X) k) - entry W1 j (bidx (ncols W1) k)) ^ 2)))"

text \<open>\<open>np.column_stack([A, B])\<close>: the columns of \<open>A\<close> before those of \<open>B\<close>.\<close>

definition np_column_stack :: "ndarray \<Rightarrow> ndarray \<Rightarrow> error + ndarray" where
  "np_column_stack A B =
     (if nrows A = nrows B
      then Inr (mk_array (nrows A) (ncols A + ncols B)
                  (\<lambda>i j. if j < ncols A then entry A i j else entry B i (j - ncols A)))
      else Inl ValueError)"

text \<open>\<open>A.reshape(-1, 1)\<close>: the entries in row-major order, as one column.\<close>

definition np_reshape_column :: "ndarray \<Rightarrow> ndarray" where
  "np_reshape_column A =
     mk_array (nrows A * ncols A) 1 (\<lambda>i j. entry A (i div ncols A) (i mod ncols A))"

text \<open>The activation matrix with its column of ones, as both functions compute it.\<close>

definition RBF_hidden_2D :: "ndarray \<Rightarrow> ndarray \<Rightarrow> pyval \<Rightarrow> error + ndarray" where
  "RBF_hidden_2D X W1 epsilon =
     bindE (np_sum_sq_diff_axis2 X W1) (\<lambda>sq.
     let distances = np_map sqrt sq in
     bindE (as_float epsilon) (\<lambda>eps.
     let H = np_map (\<lambda>d. exp (- ((d * eps) ^ 2))) distances in
     np_column_stack (np_T (np_ones 1 (nrows X))) H))"

text \<open>
  \<open>RBF_train_offline\<close> of the two-dimensional notebook. Inputs of the model:
  \<open>choice n k\<close> is what \<open>np.random.choice(n, k, replace=False)\<close> returns (numpy raises
  \<open>ValueError\<close> for \<open>k < 0\<close> or \<open>k > n\<close>), \<open>kmeans\<close> is as above, and \<open>pinv A\<close> is
  \<open>np.linalg.pinv(A)\<close>. The function has no branch for a third method: \<open>W1\<close> is then
  unbound where it is first read. It does not write to the dictionary.
\<close>

definition RBF_train_offline_2D ::
  "(nat \<Rightarrow> nat \<Rightarrow> nat list) \<Rightarrow> (int \<Rightarrow> ndarray \<Rightarrow> error + ndarray) \<Rightarrow> (ndarray \<Rightarrow> ndarray)
    \<Rightarrow> ndarray \<Rightarrow> ndarray \<Rightarrow> model \<Rightarrow> error + (model \<times> ndarray \<times> ndarray)" where
  "RBF_train_offline_2D choice kmeans pinv X y model_params =
     bindE (getitem model_params ''n_hidden'') (\<lambda>n_hidden.
     bindE (getitem model_params ''n_features'') (\<lambda>n_features.
     bindE (getitem model_params ''centres_generation_method'') (\<lambda>method.
     bindE (if method = PyStr ''random'' then
              bindE (as_int n_hidden) (\<lambda>n.
                if n < 0 \<or> int (nrows X) < n then Inl ValueError
                else bindE (np_take_rows X (choice (nrows X) (nat n))) (\<lambda>W1. Inr (Some W1)))
            else if method = PyStr ''clustering'' then
              bindE (as_int n_hidden) (\<lambda>n. bindE (kmeans n X) (\<lambda>W1. Inr (Some W1)))
            else Inr None) (\<lambda>W1_bound.
     bindE (getitem model_params ''epsilon'') (\<lambda>epsilon.
     bindE (case W1_bound of None \<Rightarrow> Inl UnboundLocalError | Some W1 \<Rightarrow> Inr W1) (\<lambda>W1.
     bindE (RBF_hidden_2D X W1 epsilon) (\<lambda>H.
     bindE (np_matmul (pinv H) (np_reshape_column y)) (\<lambda>W2.
     Inr (model_params, W1, W2)))))))))"

definition RBF_predict_2D :: "ndarray \<Rightarrow> ndarray \<Rightarrow> ndarray \<Rightarrow> pyval \<Rightarrow> error + ndarray" where
  "RBF_predict_2D X W1 W2 epsilon =
     bindE (RBF_hidden_2D X W1 epsilon) (\<lambda>H. np_matmul H W2)"

section \<open>Scalar gradient descent: \<open>minimization_using_GD\<close>\<close>

text \<open>
  The body of \<open>for k in range(num_iters)\<close>: the state is \<open>(old_x, x_history,
  pol_history)\<close>. The index \<open>k + 1\<close> is below the length \<open>num_iters + 1\<close> of both
  arrays for every \<open>k\<close> of the range, so the two assignments never raise.
\<close>

definition GD_body ::
  "(real \<Rightarrow> real) \<Rightarrow> (real \<Rightarrow> real) \<Rightarrow> real \<Rightarrow> nat
    \<Rightarrow> real \<times> real list \<times> real list \<Rightarrow> real \<times> real list \<times> real list" where
  "GD_body pol grad eta k s =
     (case s of (old_x, x_history, pol_history) \<Rightarrow>
        let new_x = old_x - eta * grad old_x
        in (new_x, x_history[k + 1 := new_x], pol_history[k + 1 := pol new_x]))"

text \<open>
  \<open>np.zeros(num_iters + 1)\<close> raises \<open>ValueError\<close> on a negative length; on length
  \<open>0\<close> the assignment \<open>x_history[0] = x0\<close> raises \<open>IndexError\<close>.
\<close>

definition minimization_using_GD ::
  "(real \<Rightarrow> real) \<Rightarrow> real \<Rightarrow> (real \<Rightarrow> real) \<Rightarrow> real \<Rightarrow> int
    \<Rightarrow> error + (real list \<times> real list)" where
  "minimization_using_GD pol x0 grad eta num_iters =
     (if num_iters + 1 < 0 then Inl ValueError
      else if num_iters + 1 = 0 then Inl IndexError
      else
        let x_history = (replicate (nat (num_iters + 1)) 0)[0 := x0];
            pol_history = (replicate (nat (num_iters + 1)) 0)[0 := pol x0];
            s = fold (GD_body pol grad eta) [0 ..< nat num_iters] (x0, x_history, pol_history)
        in Inr (fst (snd s), snd (snd s)))"

section \<open>The trainers over an explicit store of arrays\<close>

text \<open>
  Whether a trainer changes the caller's arrays depends on which names share a
  buffer, so here the arrays live in a store: a list of buffers, addressed by
  position. An array reference is the address of its buffer and the way the array
  reads it: the identity for an array that owns its buffer, and a row, a transpose, a
  reshape or a ravel for a view, which numpy creates without copying. An expression
  that builds a new array (arithmetic, a matrix product, \<open>np.zeros\<close>, \<open>np.vstack\<close>,
  indexing with an array of indices, a solver) allocates a buffer at the end of the
  store; the model allocates one per assigned result. The statements that write into
  an existing buffer are \<open>avg_E_at_each_iteration[k] = ...\<close> and, once
  \<open>E_current_epoch\<close> is an array, \<open>E_current_epoch += ...\<close>. The dictionary is not an
  array; it is only read here, and what the trainers write to it is treated on its
  own.
\<close>

type_synonym heap = "ndarray list"

type_synonym aref = "nat \<times> (ndarray \<Rightarrow> ndarray)"

type_synonym 'a hm = "heap \<Rightarrow> (error + 'a) \<times> heap"

definition deref :: "aref \<Rightarrow> heap \<Rightarrow> ndarray" where
  "deref r h = snd r (h ! fst r)"

definition view :: "(ndarray \<Rightarrow> ndarray) \<Rightarrow> aref \<Rightarrow> aref" where
  "view f r = (fst r, f \<circ> snd r)"

definition returnH :: "'a \<Rightarrow> 'a hm" where
  "returnH x = (\<lambda>h. (Inr x, h))"

definition liftE :: "error + 'a \<Rightarrow> 'a hm" where
  "liftE r = (\<lambda>h. (r, h))"

definition bindH :: "'a hm \<Rightarrow> ('a \<Rightarrow> 'b hm) \<Rightarrow> 'b hm" where
  "bindH f g = (\<lambda>h. case f h of (Inl e, h') \<Rightarrow> (Inl e, h') | (Inr x, h') \<Rightarrow> g x h')"

definition get :: "aref \<Rightarrow> ndarray hm" where
  "get r = (\<lambda>h. (Inr (deref r h), h))"

text \<open>A new array: its buffer is appended to the store, and the array owns it.\<close>

definition fresh :: "ndarray \<Rightarrow> aref hm" where
  "fresh v = (\<lambda>h. (Inr (length h, id), h @ [v]))"

text \<open>Overwriting the buffer of an array that owns it.\<close>

definition overwrite :: "aref \<Rightarrow> ndarray \<Rightarrow> unit hm" where
  "overwrite r v = (\<lambda>h. (Inr (), h[fst r := v]))"

text \<open>
  An operation on the contents of one or of two arrays, with a new array as its result.
\<close>

definition un_st :: "(ndarray \<Rightarrow> error + ndarray) \<Rightarrow> aref \<Rightarrow> aref hm" where
  "un_st f r = bindH (get r) (\<lambda>A. bindH (liftE (f A)) fresh)"

definition bin_st :: "(ndarray \<Rightarrow> ndarray \<Rightarrow> error + ndarray) \<Rightarrow> aref \<Rightarrow> aref \<Rightarrow> aref hm" where
  "bin_st f r1 r2 = bindH (get r1) (\<lambda>A. bindH (get r2) (\<lambda>B. bindH (liftE (f A B)) fresh))"

text \<open>\<open>A[i, :]\<close> and \<open>A[i]\<close>: a view of row \<open>i\<close>; \<open>IndexError\<close> when there is no such row.\<close>

definition row_view :: "aref \<Rightarrow> nat \<Rightarrow> aref hm" where
  "row_view r i =
     bindH (get r) (\<lambda>A.
       if i < nrows A then returnH (view (\<lambda>B. mk_array 1 (ncols B) (\<lambda>_ j. entry B i j)) r)
       else liftE (Inl IndexError))"

fun for_st :: "'a list \<Rightarrow> ('a \<Rightarrow> 's \<Rightarrow> 's hm) \<Rightarrow> 's \<Rightarrow> 's hm" where
  "for_st [] body s = returnH s"
| "for_st (x # xs) body s = bindH (body x s) (for_st xs body)"

subsection \<open>Linear least squares\<close>

text \<open>
  A name bound to a Python float or to an array: \<open>b\<close> and \<open>E_current_epoch\<close> start as
  the float \<open>0.0\<close>. In arithmetic with an array a float is broadcast like an array of
  one element.
\<close>

datatype pynum = PyNum real | Arr aref

definition get_num :: "pynum \<Rightarrow> ndarray hm" where
  "get_num x = (case x of PyNum c \<Rightarrow> returnH (np_full 1 1 c) | Arr r \<Rightarrow> get r)"

definition bin_num_st ::
  "(ndarray \<Rightarrow> ndarray \<Rightarrow> error + ndarray) \<Rightarrow> pynum \<Rightarrow> pynum \<Rightarrow> aref hm" where
  "bin_num_st f x1 x2 =
     bindH (get_num x1) (\<lambda>A. bindH (get_num x2) (\<lambda>B. bindH (liftE (f A B)) fresh))"

text \<open>
  \<open>E += t\<close>: on a float the name is bound to a new array; on an array the sum is
  written into the buffer of that array, which numpy refuses (\<open>ValueError\<close>) when the
  sum has another shape.
\<close>

definition iadd :: "pynum \<Rightarrow> aref \<Rightarrow> pynum hm" where
  "iadd E t =
     bindH (get_num E) (\<lambda>Ev.
     bindH (get t) (\<lambda>tv.
     bindH (liftE (np_add Ev tv)) (\<lambda>s.
     case E of
       PyNum c \<Rightarrow> bindH (fresh s) (\<lambda>r. returnH (Arr r))
     | Arr r \<Rightarrow>
         if shape s = shape Ev then bindH (overwrite r s) (\<lambda>_. returnH (Arr r))
         else liftE (Inl ValueError))))"

text \<open>
  \<open>A[k] = v\<close> for a one-dimensional array \<open>A\<close> that owns its buffer (kept as one row)
  and an index \<open>k\<close> within it.
\<close>

definition setitem :: "aref \<Rightarrow> nat \<Rightarrow> real \<Rightarrow> unit hm" where
  "setitem r k v =
     bindH (get r) (\<lambda>A.
       overwrite r (mk_array (nrows A) (ncols A)
                      (\<lambda>i j. if i = 0 \<and> j = k then v else entry A i j)))"

definition LLS_example_st ::
  "aref \<Rightarrow> aref \<Rightarrow> real \<Rightarrow> nat \<Rightarrow> aref \<times> pynum \<times> pynum
    \<Rightarrow> (aref \<times> pynum \<times> pynum) hm" where
  "LLS_example_st X y eta i s =
     (case s of (w, b, E_current_epoch) \<Rightarrow>
        bindH (row_view X i) (\<lambda>x_i.
        bindH (bin_st np_matmul x_i w) (\<lambda>xw.
        bindH (bin_num_st np_add (Arr xw) b) (\<lambda>y_pred.
        bindH (row_view y i) (\<lambda>y_i.
        bindH (bin_st np_sub y_pred y_i) (\<lambda>residual.
        bindH (un_st (\<lambda>A. Inr (np_map (\<lambda>r. 0.5 * r ^ 2) A)) residual) (\<lambda>half_sq.
        bindH (iadd E_current_epoch half_sq) (\<lambda>E'.
        bindH (bin_st np_mul residual (view np_T x_i)) (\<lambda>gradient_w.
        let gradient_b = residual in
        bindH (un_st (\<lambda>A. Inr (np_map (\<lambda>g. eta * g) A)) gradient_w) (\<lambda>step_w.
        bindH (bin_st np_sub w step_w) (\<lambda>w'.
        bindH (un_st (\<lambda>A. Inr (np_map (\<lambda>g. eta * g) A)) gradient_b) (\<lambda>step_b.
        bindH (bin_num_st np_sub b (Arr step_b)) (\<lambda>b'.
        returnH (w', Arr b', E'))))))))))))))"

text \<open>
  The body of \<open>for k in range(num_iters)\<close>; the state is \<open>(w, b,
  avg_E_at_each_iteration)\<close>, and \<open>N\<close> is the number of rows read from \<open>X.shape\<close> when
  the call begins.
\<close>

definition LLS_epoch_st ::
  "aref \<Rightarrow> aref \<Rightarrow> real \<Rightarrow> nat \<Rightarrow> nat \<Rightarrow> aref \<times> pynum \<times> aref
    \<Rightarrow> (aref \<times> pynum \<times> aref) hm" where
  "LLS_epoch_st X y eta N k s =
     (case s of (w, b, avg_E) \<Rightarrow>
        bindH (for_st [0 ..< N] (LLS_example_st X y eta) (w, b, PyNum 0))
          (\<lambda>(w', b', E_current_epoch).
             if N = 0 then liftE (Inl ZeroDivisionError)
             else
               bindH (get_num E_current_epoch) (\<lambda>Ev.
                 if nrows Ev * ncols Ev \<noteq> 1 then liftE (Inl ValueError)
                 else bindH (setitem avg_E k (entry Ev 0 0 / real N))
                        (\<lambda>_. returnH (w', b', avg_E)))))"

definition LLS_by_GD_st :: "aref \<Rightarrow> aref \<Rightarrow> real \<Rightarrow> int \<Rightarrow> (aref \<times> pynum \<times> aref) hm" where
  "LLS_by_GD_st X y eta num_iters =
     bindH (get X) (\<lambda>Xv.
     let N = nrows Xv; D = ncols Xv in
     bindH (fresh (np_zeros D 1)) (\<lambda>w.
     let b = PyNum 0 in
     bindH (liftE (as_dim num_iters)) (\<lambda>n.
     bindH (fresh (np_zeros 1 n)) (\<lambda>avg_E_at_each_iteration.
     for_st [0 ..< n] (LLS_epoch_st X y eta N) (w, b, avg_E_at_each_iteration)))))"

subsection \<open>Multi-layer perceptron\<close>

definition MLP_initialize_weights_st ::
  "(nat \<Rightarrow> nat \<Rightarrow> real) \<Rightarrow> (nat \<Rightarrow> nat \<Rightarrow> real) \<Rightarrow> model \<Rightarrow> (aref \<times> aref) hm" where
  "MLP_initialize_weights_st u1 u2 m =
     bindH (liftE (MLP_initialize_weights u1 u2 m)) (\<lambda>(W1v, W2v).
     bindH (fresh W1v) (\<lambda>W1.
     bindH (fresh W2v) (\<lambda>W2.
     returnH (W1, W2))))"

definition MLP_MSELIN_forward_st ::
  "aref \<Rightarrow> aref \<Rightarrow> aref \<Rightarrow> (aref \<times> aref \<times> aref \<times> aref) hm" where
  "MLP_MSELIN_forward_st P_input W1 W2 =
     bindH (get P_input) (\<lambda>Pv.
     let batch_size = nrows Pv in
     bindH (un_st (np_vstack (np_ones 1 batch_size)) (view np_T P_input)) (\<lambda>A0.
     bindH (bin_st np_matmul W1 A0) (\<lambda>rZ1.
     bindH (un_st (\<lambda>A. Inr (np_map MLP_sigmoid A)) rZ1) (\<lambda>rA1.
     bindH (un_st (np_vstack (np_ones 1 batch_size)) rA1) (\<lambda>A1.
     bindH (bin_st np_matmul W2 A1) (\<lambda>rA2.
     returnH (rA2, A1, A0, rZ1)))))))"

definition MLP_MSE_cost_st :: "aref \<Rightarrow> aref \<Rightarrow> real option hm" where
  "MLP_MSE_cost_st y_true y_pred =
     bindH (get y_true) (\<lambda>yt. bindH (get y_pred) (\<lambda>yp. liftE (MLP_MSE_cost yt yp)))"

definition MLP_MSELIN_backprop_st ::
  "aref \<Rightarrow> aref \<Rightarrow> aref \<Rightarrow> aref \<Rightarrow> aref \<Rightarrow> aref \<Rightarrow> aref \<Rightarrow> (aref \<times> aref) hm" where
  "MLP_MSELIN_backprop_st rA2 A1 A0 rZ1 Y_true W1 W2 =
     bindH (bin_st np_sub rA2 Y_true) (\<lambda>dL_dZ2.
     bindH (bin_st np_matmul dL_dZ2 (view np_T A1)) (\<lambda>dL_dW2.
     bindH (bin_st np_matmul (view np_T W2) dL_dZ2) (\<lambda>dL_dA1.
     bindH (un_st MLP_sigmoid_derivative rZ1) (\<lambda>sigma_prime_of_rZ1.
     bindH (bin_st np_mul (view np_tail_rows dL_dA1) sigma_prime_of_rZ1) (\<lambda>dL_drZ1.
     bindH (bin_st np_matmul dL_drZ1 (view np_T A0)) (\<lambda>dL_dW1.
     returnH (dL_dW1, dL_dW2)))))))"

text \<open>
  The body of the loop over the mini-batches. \<open>idx\<close> is an array of indices, so
  \<open>P_shuffled[idx, :]\<close> and \<open>y_shuffled[idx, :]\<close> are copies; \<open>.T\<close> is a view of the
  second one. The weights are rebound to new arrays.
\<close>

definition MLP_minibatch_st ::
  "aref \<Rightarrow> aref \<Rightarrow> pyval \<Rightarrow> nat list \<Rightarrow> aref \<times> aref \<times> real option list
    \<Rightarrow> (aref \<times> aref \<times> real option list) hm" where
  "MLP_minibatch_st P_shuffled y_shuffled current_eta idx s =
     (case s of (W1, W2, cost_history) \<Rightarrow>
        bindH (un_st (\<lambda>A. np_take_rows A idx) P_shuffled) (\<lambda>P_mini_batch.
        bindH (un_st (\<lambda>A. np_take_rows A idx) y_shuffled) (\<lambda>y_rows.
        let y_mini_batch = view np_T y_rows in
        bindH (MLP_MSELIN_forward_st P_mini_batch W1 W2) (\<lambda>(rA2, A1, A0, rZ1).
        bindH (MLP_MSE_cost_st y_mini_batch rA2) (\<lambda>cost.
        bindH (MLP_MSELIN_backprop_st rA2 A1 A0 rZ1 y_mini_batch W1 W2)
          (\<lambda>(delta_W1_unscaled, delta_W2_unscaled).
        bindH (liftE (as_float current_eta)) (\<lambda>c.
        bindH (un_st (\<lambda>A. Inr (np_map (\<lambda>g. c * g) A)) delta_W1_unscaled) (\<lambda>delta_W1.
        bindH (un_st (\<lambda>A. Inr (np_map (\<lambda>g. c * g) A)) delta_W2_unscaled) (\<lambda>delta_W2.
        bindH (bin_st np_sub W1 delta_W1) (\<lambda>W1'.
        bindH (bin_st np_sub W2 delta_W2) (\<lambda>W2'.
        returnH (W1', W2', cost_history @ [cost]))))))))))))"

text \<open>
  The body of the loop over the epochs: \<open>P_train[shuffled_indices, :]\<close> and
  \<open>y_train[shuffled_indices, :]\<close> select rows by an array of indices, which copies
  them.
\<close>

definition MLP_epoch_st ::
  "(nat \<Rightarrow> nat list) \<Rightarrow> aref \<Rightarrow> aref \<Rightarrow> pyval \<Rightarrow> pyval \<Rightarrow> nat
    \<Rightarrow> aref \<times> aref \<times> real option list \<Rightarrow> (aref \<times> aref \<times> real option list) hm" where
  "MLP_epoch_st permutation P_train y_train eta minibatches e s =
     bindH (get P_train) (\<lambda>Pv.
     let num_observations = nrows Pv;
         shuffled_indices = permutation e in
     bindH (un_st (\<lambda>A. np_take_rows A shuffled_indices) P_train) (\<lambda>P_shuffled.
     bindH (un_st (\<lambda>A. np_take_rows A shuffled_indices) y_train) (\<lambda>y_shuffled.
     bindH (liftE (array_split_arange num_observations minibatches)) (\<lambda>mini_batch_indices.
     for_st mini_batch_indices (MLP_minibatch_st P_shuffled y_shuffled eta) s))))"

definition MLP_MSELIN_train_st ::
  "(nat \<Rightarrow> nat \<Rightarrow> real) \<Rightarrow> (nat \<Rightarrow> nat \<Rightarrow> real) \<Rightarrow> (nat \<Rightarrow> nat list)
    \<Rightarrow> aref \<Rightarrow> aref \<Rightarrow> model \<Rightarrow> (aref \<times> aref) hm" where
  "MLP_MSELIN_train_st u1 u2 permutation P_train y_train m =
     bindH (MLP_initialize_weights_st u1 u2 m) (\<lambda>(W1, W2).
     bindH (liftE (getitem m ''eta'')) (\<lambda>eta.
     bindH (liftE (getitem m ''epochs'')) (\<lambda>epochs.
     bindH (liftE (getitem m ''minibatches'')) (\<lambda>minibatches.
     bindH (liftE (as_int epochs)) (\<lambda>n.
     bindH (for_st [1 ..< nat (n + 1)]
              (MLP_epoch_st permutation P_train y_train eta minibatches) (W1, W2, []))
       (\<lambda>(W1', W2', cost_history). returnH (W1', W2')))))))"

subsection \<open>Radial basis function network\<close>

definition RBF_forward_st :: "aref \<Rightarrow> aref \<Rightarrow> aref \<Rightarrow> pyval \<Rightarrow> (aref \<times> aref) hm" where
  "RBF_forward_st P W1 W2 epsilon =
     (let rA0 = view np_T P in
      bindH (bin_st np_sum_sq_diff_axis1 W1 rA0) (\<lambda>sq.
      bindH (un_st (\<lambda>A. Inr (np_map sqrt A)) sq) (\<lambda>rZ1.
      bindH (liftE (as_float epsilon)) (\<lambda>eps.
      bindH (un_st (\<lambda>A. Inr (np_map (\<lambda>z. exp (- (eps ^ 2 * z ^ 2))) A)) rZ1) (\<lambda>rA1.
      bindH (un_st RBF_extend rA1) (\<lambda>A1.
      bindH (bin_st np_matmul W2 A1) (\<lambda>rZ2.
      let rA2 = rZ2 in
      returnH (rA2, A1))))))))"

text \<open>
  \<open>RBF_initialize_centres\<close>: \<open>Xtrain[idx[:n_hidden], :]\<close> selects rows by an array of
  indices (a copy), \<open>KMeans\<close> returns centres of its own, and the centres of the debug
  policy are literals. The result carries \<open>model['n_hidden']\<close> as the function leaves
  it, which is what the trainer reads next.
\<close>

definition RBF_initialize_centres_st ::
  "(nat \<Rightarrow> nat list) \<Rightarrow> (int \<Rightarrow> ndarray \<Rightarrow> error + ndarray)
    \<Rightarrow> model \<Rightarrow> aref \<Rightarrow> aref \<Rightarrow> (pyval \<times> aref) hm" where
  "RBF_initialize_centres_st permutation kmeans m Xtrain ytrain =
     bindH (liftE (getitem m ''centres_generation_method'')) (\<lambda>policy.
     bindH (liftE (getitem m ''n_hidden'')) (\<lambda>n_hidden.
     bindH (get Xtrain) (\<lambda>Xv.
       if policy = PyStr ''random'' then
         (let idx = permutation (nrows Xv) in
          bindH (liftE (as_int n_hidden)) (\<lambda>n.
          bindH (un_st (\<lambda>A. np_take_rows A (py_take n idx)) Xtrain) (\<lambda>W1.
          returnH (n_hidden, W1))))
       else if policy = PyStr ''clustering'' then
         bindH (liftE (as_int n_hidden)) (\<lambda>n.
         bindH (un_st (kmeans n) Xtrain) (\<lambda>W1.
         returnH (n_hidden, W1)))
       else if policy = PyStr ''debug'' then
         (let n_hidden' = (if py_ne_int n_hidden 3 then PyInt 3 else n_hidden) in
          if ncols Xv = 1 then
            bindH (fresh (np_array [[-8], [-1], [7]])) (\<lambda>W1. returnH (n_hidden', W1))
          else if ncols Xv = 2 then
            bindH (fresh (np_array [[-8, -8], [-1, -1], [7, 7]])) (\<lambda>W1.
            returnH (n_hidden', W1))
          else liftE (Inl ValueError))
       else liftE (Inl ValueError))))"

text \<open>
  \<open>RBF_train_offline\<close>: \<open>A1.T\<close> and \<open>y.ravel()\<close> are views, read by the solver, whose
  solution is a new array; \<open>W2\<close> is that array reshaped.
\<close>

definition RBF_train_offline_st ::
  "(nat \<Rightarrow> nat list) \<Rightarrow> (int \<Rightarrow> ndarray \<Rightarrow> error + ndarray)
    \<Rightarrow> (ndarray \<Rightarrow> real list \<Rightarrow> real list)
    \<Rightarrow> aref \<Rightarrow> aref \<Rightarrow> model \<Rightarrow> (aref \<times> aref) hm" where
  "RBF_train_offline_st permutation kmeans lstsq X y m =
     bindH (RBF_initialize_centres_st permutation kmeans m X y) (\<lambda>(n_hidden, W1).
     bindH (liftE (as_int n_hidden)) (\<lambda>h.
     bindH (liftE (as_dim (h + 1))) (\<lambda>c.
     bindH (fresh (np_ones 1 c)) (\<lambda>W2_init.
     bindH (liftE (getitem m ''epsilon'')) (\<lambda>epsilon.
     bindH (RBF_forward_st X W1 W2_init epsilon) (\<lambda>(rA2, A1).
     bindH (bin_st (\<lambda>A1t yv.
                      let y_flat = np_ravel yv in
                      if nrows A1t = length y_flat
                      then Inr (np_array [lstsq A1t y_flat]) else Inl LinAlgError)
              (view np_T A1) y) (\<lambda>W2.
     returnH (W1, W2))))))))"

subsection \<open>Buffers that a computation leaves alone\<close>

text \<open>
  \<open>frame n f Q\<close>: run in a store with at least \<open>n\<close> buffers, \<open>f\<close> leaves the first \<open>n\<close>
  of them as they are, whether it returns or raises, and what it returns satisfies
  \<open>Q\<close>.
\<close>

definition frame :: "nat \<Rightarrow> 'a hm \<Rightarrow> ('a \<Rightarrow> bool) \<Rightarrow> bool" where
  "frame n f Q \<longleftrightarrow>
     (\<forall>h. n \<le> length h \<longrightarrow>
        n \<le> length (snd (f h)) \<and> take n (snd (f h)) = take n h \<and>
        (\<forall>x. fst (f h) = Inr x \<longrightarrow> Q x))"

text \<open>A float, or an array whose buffer was allocated after the first \<open>n\<close>.\<close>

definition local_num :: "nat \<Rightarrow> pynum \<Rightarrow> bool" where
  "local_num n x = (case x of PyNum c \<Rightarrow> True | Arr r \<Rightarrow> n \<le> fst r)"

text \<open>A dictionary with the hyperparameters of the perceptron and of the radial-basis network.\<close>

definition example_model :: model where
  "example_model =
     [''n_hidden'' \<mapsto> PyInt 3, ''n_features'' \<mapsto> PyInt 1, ''n_output'' \<mapsto> PyInt 1,
      ''eta'' \<mapsto> PyFloat (1 / 10), ''epochs'' \<mapsto> PyInt 2, ''minibatches'' \<mapsto> PyInt 2,
      ''centres_generation_method'' \<mapsto> PyStr ''debug'', ''epsilon'' \<mapsto> PyFloat 1]"

section \<open>The linear trainer as the specification words it\<close>









section \<open>Facts about the array operations\<close>


lemma bindE_eq_Inr: "bindE x f = Inr y \<longleftrightarrow> (\<exists>a. x = Inr a \<and> f a = Inr y)"
  by (cases x) simp_all


lemma bdim_simps [simp]:
  "bdim n n = Some n" "bdim (Suc 0) n = Some n" "bdim n (Suc 0) = Some n"
  by (auto simp: bdim_def)

lemma bidx_simps [simp]: "bidx (Suc 0) i = 0" "i < n \<Longrightarrow> bidx n i = i"
  by (auto simp: bidx_def)

lemma mk_array_simps [simp]:
  "nrows (mk_array r c f) = r"
  "ncols (mk_array r c f) = c"
  "i < r \<Longrightarrow> j < c \<Longrightarrow> entry (mk_array r c f) i j = f i j"
  by (simp_all add: mk_array_def)

lemma mk_array_cong:
  "(\<And>i j. i < r \<Longrightarrow> j < c \<Longrightarrow> f i j = g i j) \<Longrightarrow> mk_array r c f = mk_array r c g"
  by (auto simp: mk_array_def fun_eq_iff)

lemma np_shape_simps [simp]:
  "nrows (np_full r c v) = r" "ncols (np_full r c v) = c"
  "nrows (np_zeros r c) = r" "ncols (np_zeros r c) = c"
  "nrows (np_ones r c) = r" "ncols (np_ones r c) = c"
  "nrows (np_T A) = ncols A" "ncols (np_T A) = nrows A"
  "nrows (np_map f A) = nrows A" "ncols (np_map f A) = ncols A"
  by (simp_all add: np_full_def np_zeros_def np_ones_def np_T_def np_map_def)

lemma np_array_simps [simp]:
  "nrows (np_array rs) = length rs"
  "i < length rs \<Longrightarrow> j < length (hd rs) \<Longrightarrow> entry (np_array rs) i j = rs ! i ! j"
  by (cases rs; simp add: np_array_def)+

lemma ncols_np_array: "rs \<noteq> [] \<Longrightarrow> ncols (np_array rs) = length (hd rs)"
  by (cases rs) (simp_all add: np_array_def)

lemma entry_np_column [simp]:
  assumes "i < length ts"
  shows "entry (np_array (map (\<lambda>t. [t]) ts)) i 0 = ts ! i"
proof -
  from assms have "ts \<noteq> []" by auto
  then have "length (hd (map (\<lambda>t. [t]) ts)) = Suc 0"
    by (cases ts) simp_all
  then have "entry (np_array (map (\<lambda>t. [t]) ts)) i 0 = map (\<lambda>t. [t]) ts ! i ! 0"
    using assms by simp
  then show ?thesis using assms by simp
qed

lemma ncols_np_column [simp]:
  "ts \<noteq> [] \<Longrightarrow> ncols (np_array (map (\<lambda>t. [t]) ts)) = Suc 0"
  by (cases ts) (simp_all add: np_array_def)

section \<open>Properties of the linear trainer\<close>












section \<open>Shape errors and the perceptron's steps\<close>















section \<open>Mini-batches of the perceptron's training loop\<close>

lemma length_sections_from [simp]: "length (sections_from s ns) = length ns"
  by (induction ns arbitrary: s) simp_all

lemma map_length_sections_from [simp]: "map length (sections_from s ns) = ns"
  by (induction ns arbitrary: s) simp_all

















section \<open>Where a shape mismatch surfaces\<close>








section \<open>Centre initialisation of the radial-basis network\<close>

lemma debug_run:
  "RBF_train_offline (\<lambda>n. []) (\<lambda>k X. Inl ValueError) (\<lambda>A b. [0, 0, 0, 0])
       (np_array [[0]]) (np_array [[0]])
       [''centres_generation_method'' \<mapsto> PyStr ''debug'', ''n_hidden'' \<mapsto> PyInt 5,
        ''epsilon'' \<mapsto> PyFloat 1]
   = ([''centres_generation_method'' \<mapsto> PyStr ''debug'', ''n_hidden'' \<mapsto> PyInt 3,
        ''epsilon'' \<mapsto> PyFloat 1, ''W1'' \<mapsto> PyArray (np_array [[-8], [-1], [7]]),
        ''W2'' \<mapsto> PyArray (np_array [[0, 0, 0, 0]])],
      Inr (np_array [[-8], [-1], [7]], np_array [[0, 0, 0, 0]]))"
  by (simp add: RBF_train_offline_def RBF_initialize_centres_def getitem_def py_ne_int_def
      as_int_def as_dim_def as_float_def RBF_forward_def RBF_extend_def np_sum_sq_diff_axis1_def
      np_vstack_def np_matmul_def np_ones_def np_full_def np_T_def np_map_def Let_def
      np_ravel_def rows_of_def fun_upd_twist ncols_np_array)


lemma RBF_train_init_error:
  "snd (RBF_initialize_centres permutation kmeans m X y) = Inl e \<Longrightarrow>
     RBF_train_offline permutation kmeans lstsq X y m
       = (fst (RBF_initialize_centres permutation kmeans m X y), Inl e)"
  by (cases "RBF_initialize_centres permutation kmeans m X y")
     (simp add: RBF_train_offline_def)

text \<open>
  C1 (amended). In the one-dimensional notebook, with the keys
  \<open>centres_generation_method\<close> and \<open>n_hidden\<close> present: under the policy \<open>debug\<close> a
  hidden-unit count other than \<open>3\<close> is not an error; it is overwritten with \<open>3\<close> in
  the caller's dictionary, and the fixed centres for one or two input columns are
  returned and stored. Any other number of input columns (so every \<open>D > 2\<close>) raises
  \<open>ValueError\<close>, from the initialisation and so from training. A policy value other
  than \<open>random\<close>, \<open>clustering\<close> and \<open>debug\<close> raises \<open>ValueError\<close> and leaves the
  dictionary as it was.
\<close>

theorem RBF_centre_policy_errors:
  "(m ''centres_generation_method'' = Some (PyStr ''debug'') \<and> m ''n_hidden'' = Some v \<longrightarrow>
      (ncols X = 1 \<longrightarrow>
         RBF_initialize_centres permutation kmeans m X y
           = ((if py_ne_int v 3 then m(''n_hidden'' \<mapsto> PyInt 3) else m)
                 (''W1'' \<mapsto> PyArray (np_array [[-8], [-1], [7]])),
              Inr (np_array [[-8], [-1], [7]])))
      \<and> (ncols X = 2 \<longrightarrow>
           RBF_initialize_centres permutation kmeans m X y
             = ((if py_ne_int v 3 then m(''n_hidden'' \<mapsto> PyInt 3) else m)
                   (''W1'' \<mapsto> PyArray (np_array [[-8, -8], [-1, -1], [7, 7]])),
                Inr (np_array [[-8, -8], [-1, -1], [7, 7]])))
      \<and> (ncols X \<noteq> 1 \<and> ncols X \<noteq> 2 \<longrightarrow>
           snd (RBF_initialize_centres permutation kmeans m X y) = Inl ValueError
           \<and> snd (RBF_train_offline permutation kmeans lstsq X y m) = Inl ValueError))
   \<and> (m ''centres_generation_method'' = Some policy \<and> m ''n_hidden'' = Some v
        \<and> policy \<noteq> PyStr ''random'' \<and> policy \<noteq> PyStr ''clustering''
        \<and> policy \<noteq> PyStr ''debug'' \<longrightarrow>
        RBF_initialize_centres permutation kmeans m X y = (m, Inl ValueError)
        \<and> RBF_train_offline permutation kmeans lstsq X y m = (m, Inl ValueError))"
proof (intro conjI impI)
  assume a: "m ''centres_generation_method'' = Some (PyStr ''debug'') \<and> m ''n_hidden'' = Some v"
    and D: "ncols X = 1"
  then show "RBF_initialize_centres permutation kmeans m X y
           = ((if py_ne_int v 3 then m(''n_hidden'' \<mapsto> PyInt 3) else m)
                 (''W1'' \<mapsto> PyArray (np_array [[-8], [-1], [7]])),
              Inr (np_array [[-8], [-1], [7]]))"
    by (simp add: RBF_initialize_centres_def getitem_def Let_def)
next
  assume a: "m ''centres_generation_method'' = Some (PyStr ''debug'') \<and> m ''n_hidden'' = Some v"
    and D: "ncols X = 2"
  then show "RBF_initialize_centres permutation kmeans m X y
             = ((if py_ne_int v 3 then m(''n_hidden'' \<mapsto> PyInt 3) else m)
                   (''W1'' \<mapsto> PyArray (np_array [[-8, -8], [-1, -1], [7, 7]])),
                Inr (np_array [[-8, -8], [-1, -1], [7, 7]]))"
    by (simp add: RBF_initialize_centres_def getitem_def Let_def)
next
  assume a: "m ''centres_generation_method'' = Some (PyStr ''debug'') \<and> m ''n_hidden'' = Some v"
    and D: "ncols X \<noteq> 1 \<and> ncols X \<noteq> 2"
  then show i: "snd (RBF_initialize_centres permutation kmeans m X y) = Inl ValueError"
    by (simp add: RBF_initialize_centres_def getitem_def Let_def)
  then show "snd (RBF_train_offline permutation kmeans lstsq X y m) = Inl ValueError"
    by (simp add: RBF_train_init_error)
next
  assume a: "m ''centres_generation_method'' = Some policy \<and> m ''n_hidden'' = Some v
        \<and> policy \<noteq> PyStr ''random'' \<and> policy \<noteq> PyStr ''clustering''
        \<and> policy \<noteq> PyStr ''debug''"
  then show i: "RBF_initialize_centres permutation kmeans m X y = (m, Inl ValueError)"
    by (simp add: RBF_initialize_centres_def getitem_def)
  then show "RBF_train_offline permutation kmeans lstsq X y m = (m, Inl ValueError)"
    by (simp add: RBF_train_offline_def)
qed

theorem RBF_centre_policy_errors_witness:
  "snd (RBF_train_offline (\<lambda>n. []) (\<lambda>k X. Inl ValueError) (\<lambda>A b. [])
          (np_array [[1, 2, 3]]) (np_array [[0]])
          [''centres_generation_method'' \<mapsto> PyStr ''debug'', ''n_hidden'' \<mapsto> PyInt 3])
     = Inl ValueError
   \<and> RBF_train_offline (\<lambda>n. []) (\<lambda>k X. Inl ValueError) (\<lambda>A b. [])
          (np_array [[1, 2, 3]]) (np_array [[0]])
          [''centres_generation_method'' \<mapsto> PyStr ''kmeans'', ''n_hidden'' \<mapsto> PyInt 3]
     = ([''centres_generation_method'' \<mapsto> PyStr ''kmeans'', ''n_hidden'' \<mapsto> PyInt 3],
        Inl ValueError)"
proof -
  have c: "ncols (np_array [[1, 2, 3]]) = 3" by (simp add: np_array_def)
  show ?thesis
    using RBF_centre_policy_errors [where
        m = "[''centres_generation_method'' \<mapsto> PyStr ''debug'', ''n_hidden'' \<mapsto> PyInt 3]"
        and v = "PyInt 3" and X = "np_array [[1, 2, 3]]" and y = "np_array [[0]]"
        and permutation = "\<lambda>n. []" and kmeans = "\<lambda>k X. Inl ValueError" and lstsq = "\<lambda>A b. []"
        and policy = "PyStr ''debug''"]
      RBF_centre_policy_errors [where
        m = "[''centres_generation_method'' \<mapsto> PyStr ''kmeans'', ''n_hidden'' \<mapsto> PyInt 3]"
        and v = "PyInt 3" and X = "np_array [[1, 2, 3]]" and y = "np_array [[0]]"
        and permutation = "\<lambda>n. []" and kmeans = "\<lambda>k X. Inl ValueError" and lstsq = "\<lambda>A b. []"
        and policy = "PyStr ''kmeans''"] c
    by simp
qed

text \<open>
  The claim as stated fails: under \<open>debug\<close> with five hidden units configured,
  training raises nothing and returns the three fixed centres with four weights.
\<close>

theorem RBF_debug_hidden_counterexample:
  "snd (RBF_train_offline (\<lambda>n. []) (\<lambda>k X. Inl ValueError) (\<lambda>A b. [0, 0, 0, 0])
          (np_array [[0]]) (np_array [[0]])
          [''centres_generation_method'' \<mapsto> PyStr ''debug'', ''n_hidden'' \<mapsto> PyInt 5,
           ''epsilon'' \<mapsto> PyFloat 1])
     = Inr (np_array [[-8], [-1], [7]], np_array [[0, 0, 0, 0]])"
  by (simp add: debug_run)

section \<open>What the trainers write into the dictionary\<close>

lemma MLP_train_frame:
  assumes "k \<noteq> ''cost_history''" "k \<noteq> ''W1''" "k \<noteq> ''W2''"
  shows "fst (MLP_MSELIN_train u1 u2 permutation P_train y_train m) k = m k"
  using assms
  by (auto simp: MLP_MSELIN_train_def Let_def split: sum.splits prod.splits option.splits)

lemma RBF_init_frame:
  assumes "k \<noteq> ''W1''" "k \<noteq> ''n_hidden''"
  shows "fst (RBF_initialize_centres permutation kmeans m X y) k = m k"
  using assms
  by (auto simp: RBF_initialize_centres_def Let_def split: sum.splits prod.splits)

lemma RBF_init_n_hidden:
  "fst (RBF_initialize_centres permutation kmeans m X y) ''n_hidden'' =
     (if m ''centres_generation_method'' = Some (PyStr ''debug'')
         \<and> (\<exists>v. m ''n_hidden'' = Some v \<and> py_ne_int v 3)
      then Some (PyInt 3) else m ''n_hidden'')"
proof (cases "m ''centres_generation_method''")
  case None
  then show ?thesis by (simp add: RBF_initialize_centres_def getitem_def)
next
  case some: (Some v)
  show ?thesis
  proof (cases "m ''n_hidden''")
    case None
    then show ?thesis using some by (simp add: RBF_initialize_centres_def getitem_def)
  next
    case (Some w)
    then show ?thesis
      using some
      by (simp add: RBF_initialize_centres_def getitem_def Let_def split: sum.splits)
  qed
qed

lemma RBF_train_frame:
  assumes "k \<noteq> ''W2''"
  shows "fst (RBF_train_offline permutation kmeans lstsq X y m) k
           = fst (RBF_initialize_centres permutation kmeans m X y) k"
  using assms
  by (auto simp: RBF_train_offline_def Let_def split: sum.splits prod.splits)

lemma RBF_train_2D_frame:
  "RBF_train_offline_2D choice kmeans pinv X y m = Inr (m', W1, W2) \<Longrightarrow> m' = m"
  unfolding RBF_train_offline_2D_def bindE_eq_Inr by blast

text \<open>
  C3 (amended). The trainers write into the caller's dictionary, and only at these
  keys: the perceptron's trainer at \<open>cost_history\<close>, \<open>W1\<close> and \<open>W2\<close>; the trainer of
  the one-dimensional radial-basis notebook at \<open>W1\<close> and \<open>W2\<close>, and at \<open>n_hidden\<close>
  only under the policy \<open>debug\<close> with a count other than \<open>3\<close>, which it overwrites
  with \<open>3\<close>. Every other key holds after the call, whether it returned or raised,
  what it held before. The trainer of the two-dimensional notebook returns the
  dictionary it was given.
\<close>

theorem model_written_only_at_result_keys:
  "(k \<noteq> ''cost_history'' \<and> k \<noteq> ''W1'' \<and> k \<noteq> ''W2'' \<longrightarrow>
      fst (MLP_MSELIN_train u1 u2 perms P_train y_train m) k = m k)
   \<and> (k \<noteq> ''W1'' \<and> k \<noteq> ''W2'' \<and> k \<noteq> ''n_hidden'' \<longrightarrow>
        fst (RBF_train_offline permutation kmeans lstsq X y m) k = m k)
   \<and> fst (RBF_train_offline permutation kmeans lstsq X y m) ''n_hidden'' =
        (if m ''centres_generation_method'' = Some (PyStr ''debug'')
            \<and> (\<exists>v. m ''n_hidden'' = Some v \<and> py_ne_int v 3)
         then Some (PyInt 3) else m ''n_hidden'')
   \<and> (RBF_train_offline_2D choice kmeans' pinv X y m = Inr (m', W1, W2) \<longrightarrow> m' = m)"
proof (intro conjI impI)
  assume "k \<noteq> ''cost_history'' \<and> k \<noteq> ''W1'' \<and> k \<noteq> ''W2''"
  then show "fst (MLP_MSELIN_train u1 u2 perms P_train y_train m) k = m k"
    by (simp add: MLP_train_frame)
next
  assume "k \<noteq> ''W1'' \<and> k \<noteq> ''W2'' \<and> k \<noteq> ''n_hidden''"
  then show "fst (RBF_train_offline permutation kmeans lstsq X y m) k = m k"
    by (simp add: RBF_train_frame RBF_init_frame)
next
  show "fst (RBF_train_offline permutation kmeans lstsq X y m) ''n_hidden'' =
        (if m ''centres_generation_method'' = Some (PyStr ''debug'')
            \<and> (\<exists>v. m ''n_hidden'' = Some v \<and> py_ne_int v 3)
         then Some (PyInt 3) else m ''n_hidden'')"
    by (simp only: RBF_train_frame[of "''n_hidden''", simplified] RBF_init_n_hidden)
next
  assume "RBF_train_offline_2D choice kmeans' pinv X y m = Inr (m', W1, W2)"
  then show "m' = m" by (rule RBF_train_2D_frame)
qed

text \<open>
  The claim as stated fails: under \<open>debug\<close> the configured hidden-unit count \<open>5\<close> is
  \<open>3\<close> after training, and the dictionary has gained the weights.
\<close>

theorem model_changed_counterexample:
  "fst (RBF_train_offline (\<lambda>n. []) (\<lambda>k X. Inl ValueError) (\<lambda>A b. [0, 0, 0, 0])
          (np_array [[0]]) (np_array [[0]])
          [''centres_generation_method'' \<mapsto> PyStr ''debug'', ''n_hidden'' \<mapsto> PyInt 5,
           ''epsilon'' \<mapsto> PyFloat 1])
     = [''centres_generation_method'' \<mapsto> PyStr ''debug'', ''n_hidden'' \<mapsto> PyInt 3,
        ''epsilon'' \<mapsto> PyFloat 1, ''W1'' \<mapsto> PyArray (np_array [[-8], [-1], [7]]),
        ''W2'' \<mapsto> PyArray (np_array [[0, 0, 0, 0]])]"
  by (simp add: debug_run)


theorem model_written_only_at_result_keys_witness:
  "fst (MLP_MSELIN_train (\<lambda>i j. 0) (\<lambda>i j. 0) (\<lambda>e. []) (np_array [[1]]) (np_array [[1]])
          [''eta'' \<mapsto> PyFloat (1 / 10)]) ''eta'' = Some (PyFloat (1 / 10))
   \<and> fst (RBF_train_offline (\<lambda>n. []) (\<lambda>k X. Inl ValueError) (\<lambda>A b. []) (np_array [[1]])
            (np_array [[1]]) [''epsilon'' \<mapsto> PyFloat 1]) ''epsilon'' = Some (PyFloat 1)
   \<and> (\<exists>W1 W2.
        RBF_train_offline_2D (\<lambda>n k. [0]) (\<lambda>k X. Inl ValueError) (\<lambda>A. np_zeros 2 1)
          (np_array [[1, 2]]) (np_array [[1]])
          [''n_hidden'' \<mapsto> PyInt 1, ''n_features'' \<mapsto> PyInt 2,
           ''centres_generation_method'' \<mapsto> PyStr ''random'', ''epsilon'' \<mapsto> PyFloat 1]
        = Inr ([''n_hidden'' \<mapsto> PyInt 1, ''n_features'' \<mapsto> PyInt 2,
                ''centres_generation_method'' \<mapsto> PyStr ''random'', ''epsilon'' \<mapsto> PyFloat 1],
               W1, W2))"
proof -
  let ?m2 = "[''n_hidden'' \<mapsto> PyInt 1, ''n_features'' \<mapsto> PyInt 2,
              ''centres_generation_method'' \<mapsto> PyStr ''random'', ''epsilon'' \<mapsto> PyFloat 1]"
  have "\<exists>m' W1 W2.
        RBF_train_offline_2D (\<lambda>n k. [0]) (\<lambda>k X. Inl ValueError) (\<lambda>A. np_zeros 2 1)
          (np_array [[1, 2]]) (np_array [[1]]) ?m2 = Inr (m', W1, W2)"
    by (simp add: RBF_train_offline_2D_def RBF_hidden_2D_def getitem_def as_int_def as_float_def
        np_take_rows_def np_sum_sq_diff_axis2_def np_column_stack_def np_matmul_def
        np_reshape_column_def np_zeros_def np_ones_def np_full_def np_T_def np_map_def Let_def
        ncols_np_array)
  then obtain m' W1 W2 where
    run: "RBF_train_offline_2D (\<lambda>n k. [0]) (\<lambda>k X. Inl ValueError) (\<lambda>A. np_zeros 2 1)
          (np_array [[1, 2]]) (np_array [[1]]) ?m2 = Inr (m', W1, W2)"
    by blast
  have "m' = ?m2"
    using model_written_only_at_result_keys [where m = ?m2 and choice = "\<lambda>n k. [0]"
        and kmeans' = "\<lambda>k X. Inl ValueError" and pinv = "\<lambda>A. np_zeros 2 1"
        and X = "np_array [[1, 2]]" and y = "np_array [[1]]" and m' = m' and ?W1.0 = W1
        and ?W2.0 = W2] run
    by blast
  then have three: "\<exists>W1 W2.
        RBF_train_offline_2D (\<lambda>n k. [0]) (\<lambda>k X. Inl ValueError) (\<lambda>A. np_zeros 2 1)
          (np_array [[1, 2]]) (np_array [[1]]) ?m2 = Inr (?m2, W1, W2)"
    using run by blast
  have one: "fst (MLP_MSELIN_train (\<lambda>i j. 0) (\<lambda>i j. 0) (\<lambda>e. []) (np_array [[1]]) (np_array [[1]])
          [''eta'' \<mapsto> PyFloat (1 / 10)]) ''eta'' = Some (PyFloat (1 / 10))"
    using model_written_only_at_result_keys [where k = "''eta''"
        and m = "[''eta'' \<mapsto> PyFloat (1 / 10)]"]
    by simp
  have two: "fst (RBF_train_offline (\<lambda>n. []) (\<lambda>k X. Inl ValueError) (\<lambda>A b. []) (np_array [[1]])
            (np_array [[1]]) [''epsilon'' \<mapsto> PyFloat 1]) ''epsilon'' = Some (PyFloat 1)"
    using model_written_only_at_result_keys [where k = "''epsilon''"
        and m = "[''epsilon'' \<mapsto> PyFloat 1]"]
    by simp
  show ?thesis using one two three by blast
qed

section \<open>The backward pass of the perceptron\<close>







section \<open>The closed-form solve of the radial-basis network\<close>

lemma RBF_forward_split:
  "RBF_forward P C W2 epsilon =
     bindE (np_sum_sq_diff_axis1 C (np_T P)) (\<lambda>sq.
     bindE (as_float epsilon) (\<lambda>eps.
     bindE (RBF_extend (np_map (\<lambda>z. exp (- (eps ^ 2 * z ^ 2))) (np_map sqrt sq))) (\<lambda>A1.
     bindE (np_matmul W2 A1) (\<lambda>rA2. Inr (rA2, A1)))))"
  by (simp add: RBF_forward_def Let_def)

lemma RBF_forward_activation_independent:
  assumes "RBF_forward P C W epsilon = Inr (r, A1)"
  shows "RBF_forward P C W2 epsilon = bindE (np_matmul W2 A1) (\<lambda>rA2. Inr (rA2, A1))"
  using assms by (auto simp: RBF_forward_split bindE_eq_Inr)

lemma sum_list_sq_nonneg: "0 \<le> (\<Sum>k\<leftarrow>ks. (f k - g k :: real) ^ 2)"
  by (rule sum_list_nonneg) auto

lemma RBF_extend_eq:
  "RBF_extend M = Inr (mk_array (Suc (nrows M)) (ncols M)
                         (\<lambda>i j. if i = 0 then 1 else entry M (i - 1) j))"
proof -
  have "mk_array (nrows (np_ones 1 (ncols M)) + nrows M) (ncols (np_ones 1 (ncols M)))
          (\<lambda>i j. if i < nrows (np_ones 1 (ncols M)) then entry (np_ones 1 (ncols M)) i j
                 else entry M (i - nrows (np_ones 1 (ncols M))) j)
        = mk_array (Suc (nrows M)) (ncols M) (\<lambda>i j. if i = 0 then 1 else entry M (i - 1) j)"
    unfolding np_ones_def np_full_def mk_array_simps
    by (simp, rule mk_array_cong) auto
  moreover have "ncols (np_ones 1 (ncols M)) = ncols M"
    by (simp add: np_ones_def np_full_def)
  ultimately show ?thesis
    by (simp only: RBF_extend_def np_vstack_def refl if_True)
qed

lemma RBF_forward_entries:
  assumes f: "RBF_forward P C W epsilon = Inr (r, A1)" and D: "ncols C = ncols P"
  shows "\<exists>eps. as_float epsilon = Inr eps
     \<and> nrows A1 = nrows C + 1 \<and> ncols A1 = nrows P
     \<and> (\<forall>j < nrows P. entry A1 0 j = 1)
     \<and> (\<forall>i < nrows C. \<forall>j < nrows P.
           entry A1 (i + 1) j
             = exp (- (eps ^ 2 * (\<Sum>k\<leftarrow>[0 ..< ncols P]. (entry C i k - entry P j k) ^ 2))))"
proof -
  let ?sq = "mk_array (nrows C) (nrows P)
               (\<lambda>i j. \<Sum>k\<leftarrow>[0 ..< ncols P]. (entry C i k - entry P j k) ^ 2)"
  have "mk_array (nrows C) (nrows P)
          (\<lambda>i j. \<Sum>k\<leftarrow>[0 ..< ncols P].
              (entry C i (bidx (ncols P) k) - entry (np_T P) (bidx (ncols P) k) j) ^ 2) = ?sq"
    by (rule mk_array_cong) (simp add: np_T_def cong: list.map_cong_simp)
  then have sq: "np_sum_sq_diff_axis1 C (np_T P) = Inr ?sq"
    using D by (simp add: np_sum_sq_diff_axis1_def np_T_def)
  from f obtain eps where eps: "as_float epsilon = Inr eps"
    and A1: "RBF_extend (np_map (\<lambda>z. exp (- (eps ^ 2 * z ^ 2))) (np_map sqrt ?sq)) = Inr A1"
    by (auto simp: RBF_forward_split sq bindE_eq_Inr)
  let ?M = "np_map (\<lambda>z. exp (- (eps ^ 2 * z ^ 2))) (np_map sqrt ?sq)"
  have M: "nrows ?M = nrows C" "ncols ?M = nrows P" by (simp_all add: np_map_def)
  have A1': "A1 = mk_array (Suc (nrows C)) (nrows P)
                    (\<lambda>i j. if i = 0 then 1 else entry ?M (i - 1) j)"
    using A1 unfolding RBF_extend_eq M by simp
  have "\<forall>i < nrows C. \<forall>j < nrows P.
           entry A1 (i + 1) j
             = exp (- (eps ^ 2 * (\<Sum>k\<leftarrow>[0 ..< ncols P]. (entry C i k - entry P j k) ^ 2)))"
    by (simp add: A1' np_map_def sum_list_sq_nonneg)
  moreover have "\<forall>j < nrows P. entry A1 0 j = 1"
    by (simp add: A1')
  moreover have "nrows A1 = nrows C + 1" "ncols A1 = nrows P"
    by (simp_all add: A1')
  ultimately show ?thesis using eps by blast
qed


lemma RBF_hidden_2D_entries:
  assumes h: "RBF_hidden_2D X C epsilon = Inr H" and D: "ncols C = ncols X"
  shows "\<exists>eps. as_float epsilon = Inr eps
     \<and> nrows H = nrows X \<and> ncols H = nrows C + 1
     \<and> (\<forall>j < nrows X. entry H j 0 = 1)
     \<and> (\<forall>j < nrows X. \<forall>i < nrows C.
           entry H j (i + 1)
             = exp (- (eps ^ 2 * (\<Sum>k\<leftarrow>[0 ..< ncols X]. (entry X j k - entry C i k) ^ 2))))"
proof -
  let ?sq = "mk_array (nrows X) (nrows C)
               (\<lambda>i j. \<Sum>k\<leftarrow>[0 ..< ncols X]. (entry X i k - entry C j k) ^ 2)"
  have "mk_array (nrows X) (nrows C)
          (\<lambda>i j. \<Sum>k\<leftarrow>[0 ..< ncols X].
              (entry X i (bidx (ncols X) k) - entry C j (bidx (ncols X) k)) ^ 2) = ?sq"
    by (rule mk_array_cong) (simp cong: list.map_cong_simp)
  then have sq: "np_sum_sq_diff_axis2 X C = Inr ?sq"
    using D by (simp add: np_sum_sq_diff_axis2_def)
  let ?G = "\<lambda>eps. np_map (\<lambda>d. exp (- ((d * eps) ^ 2))) (np_map sqrt ?sq)"
  from h obtain eps where eps: "as_float epsilon = Inr eps"
    and H: "np_column_stack (np_T (np_ones 1 (nrows X))) (?G eps) = Inr H"
    by (auto simp: RBF_hidden_2D_def Let_def sq bindE_eq_Inr)
  have G: "nrows (?G eps) = nrows X" "ncols (?G eps) = nrows C" by (simp_all add: np_map_def)
  have one: "nrows (np_T (np_ones 1 (nrows X))) = nrows X" "ncols (np_T (np_ones 1 (nrows X))) = 1"
    by (simp_all add: np_T_def)
  from H have H': "H = mk_array (nrows X) (1 + nrows C)
      (\<lambda>i j. if j < 1 then entry (np_T (np_ones 1 (nrows X))) i j else entry (?G eps) i (j - 1))"
    unfolding np_column_stack_def one G by simp
  have e: "(sqrt d * eps) ^ 2 = eps ^ 2 * d" if "0 \<le> d" for d :: real
    using that by (simp add: power_mult_distrib)
  have "\<forall>j < nrows X. \<forall>i < nrows C.
           entry H j (i + 1)
             = exp (- (eps ^ 2 * (\<Sum>k\<leftarrow>[0 ..< ncols X]. (entry X j k - entry C i k) ^ 2)))"
    by (simp add: H' np_map_def e sum_list_sq_nonneg)
  moreover have "\<forall>j < nrows X. entry H j 0 = 1"
    by (simp add: H' np_T_def np_ones_def np_full_def)
  moreover have "nrows H = nrows X" "ncols H = nrows C + 1"
    by (simp_all add: H')
  ultimately show ?thesis using eps by blast
qed

lemma RBF_train_offline_parts:
  assumes "RBF_train_offline permutation kmeans lstsq X y m = (m', Inr (W1, W2))"
  shows "\<exists>epsilon c r A1. m' ''epsilon'' = Some epsilon
     \<and> RBF_forward X W1 (np_ones 1 c) epsilon = Inr (r, A1)
     \<and> ncols A1 = length (np_ravel y)
     \<and> W2 = np_array [lstsq (np_T A1) (np_ravel y)]"
proof -
  obtain m1 r1 where i: "RBF_initialize_centres permutation kmeans m X y = (m1, r1)"
    by (cases "RBF_initialize_centres permutation kmeans m X y")
  from assms i obtain C where r1: "r1 = Inr C"
    by (cases r1) (simp_all add: RBF_train_offline_def)
  from assms show ?thesis
    unfolding RBF_train_offline_def i r1
    apply (auto simp: bindE_eq_Inr getitem_def Let_def
        split: sum.splits option.splits if_splits prod.splits)
    apply blast
    done
qed


lemma RBF_train_offline_2D_parts:
  assumes "RBF_train_offline_2D choice kmeans pinv X y m = Inr (m', W1, W2)"
  shows "\<exists>epsilon H. m ''epsilon'' = Some epsilon \<and> RBF_hidden_2D X W1 epsilon = Inr H
     \<and> np_matmul (pinv H) (np_reshape_column y) = Inr W2"
  using assms
  by (auto simp: RBF_train_offline_2D_def bindE_eq_Inr getitem_def split: option.splits)

lemma RBF_init_snd_upd:
  assumes "k \<noteq> ''centres_generation_method''" "k \<noteq> ''n_hidden''"
  shows "snd (RBF_initialize_centres permutation kmeans (m(k \<mapsto> v)) X y)
           = snd (RBF_initialize_centres permutation kmeans m X y)"
proof (cases "m ''centres_generation_method''")
  case None
  then show ?thesis using assms by (simp add: RBF_initialize_centres_def getitem_def)
next
  case some: (Some policy)
  show ?thesis
  proof (cases "m ''n_hidden''")
    case None
    then show ?thesis using some assms by (simp add: RBF_initialize_centres_def getitem_def)
  next
    case (Some w)
    then show ?thesis
      using some assms
      by (simp add: RBF_initialize_centres_def getitem_def Let_def split: sum.splits)
  qed
qed

lemma RBF_train_snd_cong:
  assumes "snd (RBF_initialize_centres permutation kmeans m X y)
             = snd (RBF_initialize_centres permutation kmeans m2 X y)"
    and "fst (RBF_initialize_centres permutation kmeans m X y) ''n_hidden''
             = fst (RBF_initialize_centres permutation kmeans m2 X y) ''n_hidden''"
    and "fst (RBF_initialize_centres permutation kmeans m X y) ''epsilon''
             = fst (RBF_initialize_centres permutation kmeans m2 X y) ''epsilon''"
  shows "snd (RBF_train_offline permutation kmeans lstsq X y m)
           = snd (RBF_train_offline permutation kmeans lstsq X y m2)"
proof -
  obtain a r where i: "RBF_initialize_centres permutation kmeans m X y = (a, r)"
    by (cases "RBF_initialize_centres permutation kmeans m X y")
  obtain a2 r2 where i2: "RBF_initialize_centres permutation kmeans m2 X y = (a2, r2)"
    by (cases "RBF_initialize_centres permutation kmeans m2 X y")
  from assms have e: "r2 = r" "a2 ''n_hidden'' = a ''n_hidden''" "a2 ''epsilon'' = a ''epsilon''"
    by (simp_all add: i i2)
  show ?thesis
    unfolding RBF_train_offline_def i i2 e(1)
    by (cases r) (simp_all add: getitem_def e split: sum.splits)
qed

lemma RBF_train_snd_upd:
  assumes "k \<noteq> ''centres_generation_method''" "k \<noteq> ''n_hidden''" "k \<noteq> ''epsilon''"
  shows "snd (RBF_train_offline permutation kmeans lstsq X y (m(k \<mapsto> v)))
           = snd (RBF_train_offline permutation kmeans lstsq X y m)"
proof (rule RBF_train_snd_cong)
  show "snd (RBF_initialize_centres permutation kmeans (m(k \<mapsto> v)) X y)
          = snd (RBF_initialize_centres permutation kmeans m X y)"
    using assms by (simp add: RBF_init_snd_upd)
  show "fst (RBF_initialize_centres permutation kmeans (m(k \<mapsto> v)) X y) ''n_hidden''
          = fst (RBF_initialize_centres permutation kmeans m X y) ''n_hidden''"
    using assms by (auto simp: RBF_init_n_hidden)
  show "fst (RBF_initialize_centres permutation kmeans (m(k \<mapsto> v)) X y) ''epsilon''
          = fst (RBF_initialize_centres permutation kmeans m X y) ''epsilon''"
    using assms by (simp add: RBF_init_frame)
qed

lemma RBF_train_2D_upd:
  assumes "k \<noteq> ''centres_generation_method''" "k \<noteq> ''n_hidden''" "k \<noteq> ''epsilon''"
    "k \<noteq> ''n_features''"
  shows "map_sum id snd (RBF_train_offline_2D choice kmeans pinv X y (m(k \<mapsto> v)))
           = map_sum id snd (RBF_train_offline_2D choice kmeans pinv X y m)"
proof -
  have g: "getitem (m(k \<mapsto> v)) ''n_hidden'' = getitem m ''n_hidden''"
    "getitem (m(k \<mapsto> v)) ''n_features'' = getitem m ''n_features''"
    "getitem (m(k \<mapsto> v)) ''centres_generation_method'' = getitem m ''centres_generation_method''"
    "getitem (m(k \<mapsto> v)) ''epsilon'' = getitem m ''epsilon''"
    using assms by (simp_all add: getitem_def)
  have b: "map_sum id snd (bindE x f) = bindE x (\<lambda>a. map_sum id snd (f a))"
    for x :: "error + 'a" and f :: "'a \<Rightarrow> error + (model \<times> ndarray \<times> ndarray)"
    by (cases x) simp_all
  show ?thesis
    unfolding RBF_train_offline_2D_def g b by simp
qed

text \<open>
  C7. Training the output weights is one solve. In both notebooks the hidden
  activation matrix has, for centre \<open>i\<close> and input \<open>j\<close>, the entry
  \<open>exp (- \<epsilon>\<^sup>2 \<cdot> d)\<close> with \<open>d\<close> the squared Euclidean distance between them, and a
  constant row (first notebook) or column (second notebook) of ones in front.
  The weights are what numpy's least-squares solver returns for that matrix and
  the targets (\<open>lstsq\<close>, first notebook), or the product of its pseudo-inverse with
  the targets (\<open>pinv\<close>, second notebook): the solver is called once. No learning
  rate and no iteration count enters: the returned centres and weights do not depend
  on any key of the dictionary other than the policy, the hidden-unit count, the
  width (and, in the second notebook, the feature count, which is read and unused).
\<close>

theorem RBF_weights_closed_form:
  "(RBF_train_offline permutation kmeans lstsq X y m = (m', Inr (W1, W2)) \<and> ncols W1 = ncols X \<longrightarrow>
      (\<exists>epsilon eps A1. m' ''epsilon'' = Some epsilon \<and> as_float epsilon = Inr eps
         \<and> nrows A1 = nrows W1 + 1 \<and> ncols A1 = nrows X
         \<and> (\<forall>j < nrows X. entry A1 0 j = 1)
         \<and> (\<forall>i < nrows W1. \<forall>j < nrows X.
               entry A1 (i + 1) j
                 = exp (- (eps ^ 2 * (\<Sum>k\<leftarrow>[0 ..< ncols X]. (entry W1 i k - entry X j k) ^ 2))))
         \<and> W2 = np_array [lstsq (np_T A1) (np_ravel y)]))
   \<and> (RBF_train_offline_2D choice kmeans' pinv X y m = Inr (m', W1, W2) \<and> ncols W1 = ncols X \<longrightarrow>
      (\<exists>epsilon eps H. m ''epsilon'' = Some epsilon \<and> as_float epsilon = Inr eps
         \<and> nrows H = nrows X \<and> ncols H = nrows W1 + 1
         \<and> (\<forall>j < nrows X. entry H j 0 = 1)
         \<and> (\<forall>j < nrows X. \<forall>i < nrows W1.
               entry H j (i + 1)
                 = exp (- (eps ^ 2 * (\<Sum>k\<leftarrow>[0 ..< ncols X]. (entry X j k - entry W1 i k) ^ 2))))
         \<and> np_matmul (pinv H) (np_reshape_column y) = Inr W2))
   \<and> (k \<noteq> ''centres_generation_method'' \<and> k \<noteq> ''n_hidden'' \<and> k \<noteq> ''epsilon'' \<longrightarrow>
        snd (RBF_train_offline permutation kmeans lstsq X y (m(k \<mapsto> v)))
          = snd (RBF_train_offline permutation kmeans lstsq X y m))
   \<and> (k \<noteq> ''centres_generation_method'' \<and> k \<noteq> ''n_hidden'' \<and> k \<noteq> ''epsilon''
        \<and> k \<noteq> ''n_features'' \<longrightarrow>
        map_sum id snd (RBF_train_offline_2D choice kmeans' pinv X y (m(k \<mapsto> v)))
          = map_sum id snd (RBF_train_offline_2D choice kmeans' pinv X y m))"
proof (intro conjI impI)
  assume a: "RBF_train_offline permutation kmeans lstsq X y m = (m', Inr (W1, W2))
             \<and> ncols W1 = ncols X"
  from RBF_train_offline_parts[of permutation kmeans lstsq X y m m' W1 W2] a
  obtain epsilon c r A1 where e: "m' ''epsilon'' = Some epsilon"
    and f: "RBF_forward X W1 (np_ones 1 c) epsilon = Inr (r, A1)"
    and W2: "W2 = np_array [lstsq (np_T A1) (np_ravel y)]"
    by blast
  from RBF_forward_entries[OF f] a e W2
  show "\<exists>epsilon eps A1. m' ''epsilon'' = Some epsilon \<and> as_float epsilon = Inr eps
         \<and> nrows A1 = nrows W1 + 1 \<and> ncols A1 = nrows X
         \<and> (\<forall>j < nrows X. entry A1 0 j = 1)
         \<and> (\<forall>i < nrows W1. \<forall>j < nrows X.
               entry A1 (i + 1) j
                 = exp (- (eps ^ 2 * (\<Sum>k\<leftarrow>[0 ..< ncols X]. (entry W1 i k - entry X j k) ^ 2))))
         \<and> W2 = np_array [lstsq (np_T A1) (np_ravel y)]"
    by blast
next
  assume a: "RBF_train_offline_2D choice kmeans' pinv X y m = Inr (m', W1, W2)
             \<and> ncols W1 = ncols X"
  from RBF_train_offline_2D_parts[of choice kmeans' pinv X y m m' W1 W2] a
  obtain epsilon H where e: "m ''epsilon'' = Some epsilon"
    and h: "RBF_hidden_2D X W1 epsilon = Inr H"
    and W2: "np_matmul (pinv H) (np_reshape_column y) = Inr W2"
    by blast
  from RBF_hidden_2D_entries[OF h] a e W2
  show "\<exists>epsilon eps H. m ''epsilon'' = Some epsilon \<and> as_float epsilon = Inr eps
         \<and> nrows H = nrows X \<and> ncols H = nrows W1 + 1
         \<and> (\<forall>j < nrows X. entry H j 0 = 1)
         \<and> (\<forall>j < nrows X. \<forall>i < nrows W1.
               entry H j (i + 1)
                 = exp (- (eps ^ 2 * (\<Sum>k\<leftarrow>[0 ..< ncols X]. (entry X j k - entry W1 i k) ^ 2))))
         \<and> np_matmul (pinv H) (np_reshape_column y) = Inr W2"
    by blast
next
  assume "k \<noteq> ''centres_generation_method'' \<and> k \<noteq> ''n_hidden'' \<and> k \<noteq> ''epsilon''"
  then show "snd (RBF_train_offline permutation kmeans lstsq X y (m(k \<mapsto> v)))
          = snd (RBF_train_offline permutation kmeans lstsq X y m)"
    by (intro RBF_train_snd_upd) simp_all
next
  assume "k \<noteq> ''centres_generation_method'' \<and> k \<noteq> ''n_hidden'' \<and> k \<noteq> ''epsilon''
        \<and> k \<noteq> ''n_features''"
  then show "map_sum id snd (RBF_train_offline_2D choice kmeans' pinv X y (m(k \<mapsto> v)))
          = map_sum id snd (RBF_train_offline_2D choice kmeans' pinv X y m)"
    by (intro RBF_train_2D_upd) simp_all
qed


lemma run_2D:
  "\<exists>W1 W2.
     RBF_train_offline_2D (\<lambda>n k. [0]) (\<lambda>k X. Inl ValueError) (\<lambda>A. np_zeros 2 1)
        (np_array [[1, 2]]) (np_array [[1]])
        [''n_hidden'' \<mapsto> PyInt 1, ''n_features'' \<mapsto> PyInt 2,
         ''centres_generation_method'' \<mapsto> PyStr ''random'', ''epsilon'' \<mapsto> PyFloat 1]
       = Inr ([''n_hidden'' \<mapsto> PyInt 1, ''n_features'' \<mapsto> PyInt 2,
               ''centres_generation_method'' \<mapsto> PyStr ''random'', ''epsilon'' \<mapsto> PyFloat 1],
              W1, W2)
     \<and> nrows W1 = 1 \<and> ncols W1 = 2 \<and> entry W1 0 0 = 1 \<and> entry W1 0 1 = 2"
  by (simp add: RBF_train_offline_2D_def RBF_hidden_2D_def getitem_def as_int_def as_float_def
      np_take_rows_def np_sum_sq_diff_axis2_def np_column_stack_def np_matmul_def
      np_reshape_column_def Let_def ncols_np_array)

theorem RBF_weights_closed_form_witness:
  "(\<exists>A1. nrows A1 = 4 \<and> ncols A1 = 1 \<and> entry A1 0 0 = 1 \<and> entry A1 1 0 = exp (- 64)
       \<and> entry A1 2 0 = exp (- 1) \<and> entry A1 3 0 = exp (- 49)
       \<and> np_array [[0, 0, 0, 0]] = np_array [(\<lambda>A b. [0, 0, 0, 0]) (np_T A1) (np_ravel (np_array [[0]]))])
   \<and> (\<exists>H :: ndarray. nrows H = 1 \<and> ncols H = 2 \<and> entry H 0 0 = 1 \<and> entry H 0 1 = exp (- 0))"
proof -
  let ?m = "[''centres_generation_method'' \<mapsto> PyStr ''debug'', ''n_hidden'' \<mapsto> PyInt 5,
             ''epsilon'' \<mapsto> PyFloat 1]"
  let ?C = "np_array [[-8], [-1], [7]]"
  let ?X = "np_array [[0]]"
  have sh: "ncols ?C = ncols ?X" "nrows ?C = 3" "nrows ?X = 1" "ncols ?X = 1"
    by (simp_all add: ncols_np_array)
  let ?m' = "[''centres_generation_method'' \<mapsto> PyStr ''debug'', ''n_hidden'' \<mapsto> PyInt 3,
        ''epsilon'' \<mapsto> PyFloat 1, ''W1'' \<mapsto> PyArray (np_array [[-8], [-1], [7]]),
        ''W2'' \<mapsto> PyArray (np_array [[0, 0, 0, 0]])]"
  from RBF_weights_closed_form [where permutation = "\<lambda>n. []" and kmeans = "\<lambda>k X. Inl ValueError"
      and lstsq = "\<lambda>A b. [0, 0, 0, 0]" and X = ?X and y = "np_array [[0]]" and m = ?m
      and ?W1.0 = ?C and ?W2.0 = "np_array [[0, 0, 0, 0]]" and m' = ?m',
      THEN conjunct1, THEN mp, OF conjI[OF debug_run sh(1)]]
  obtain epsilon eps A1 where
    e: "?m' ''epsilon'' = Some epsilon" "as_float epsilon = Inr eps"
    and A: "nrows A1 = nrows ?C + 1" "ncols A1 = nrows ?X" "\<forall>j < nrows ?X. entry A1 0 j = 1"
      "\<forall>i < nrows ?C. \<forall>j < nrows ?X. entry A1 (i + 1) j
          = exp (- (eps ^ 2 * (\<Sum>k\<leftarrow>[0 ..< ncols ?X]. (entry ?C i k - entry ?X j k) ^ 2)))"
    and W: "np_array [[0, 0, 0, 0]] = np_array [(\<lambda>A b. [0, 0, 0, 0]) (np_T A1) (np_ravel ?X)]"
    by blast
  have eps: "eps = 1" using e by (auto simp: as_float_def)
  have "entry A1 1 0 = exp (- 64)" "entry A1 2 0 = exp (- 1)" "entry A1 3 0 = exp (- 49)"
    using A(4)[rule_format, of 0 0] A(4)[rule_format, of "Suc 0" 0]
      A(4)[rule_format, of "Suc (Suc 0)" 0]
    by (simp_all add: sh eps numeral_2_eq_2 numeral_3_eq_3)
  then have one: "\<exists>A1. nrows A1 = 4 \<and> ncols A1 = 1 \<and> entry A1 0 0 = 1 \<and> entry A1 1 0 = exp (- 64)
       \<and> entry A1 2 0 = exp (- 1) \<and> entry A1 3 0 = exp (- 49)
       \<and> np_array [[0, 0, 0, 0]] = np_array [(\<lambda>A b. [0, 0, 0, 0]) (np_T A1) (np_ravel (np_array [[0]]))]"
    using A(1,2,3) W by (intro exI[of _ A1]) (simp add: sh)
  let ?m2 = "[''n_hidden'' \<mapsto> PyInt 1, ''n_features'' \<mapsto> PyInt 2,
              ''centres_generation_method'' \<mapsto> PyStr ''random'', ''epsilon'' \<mapsto> PyFloat 1]"
  let ?X2 = "np_array [[1, 2]]"
  have sh2: "nrows ?X2 = 1" "ncols ?X2 = 2" by (simp_all add: ncols_np_array)
  from run_2D obtain W1 W2 where
    run: "RBF_train_offline_2D (\<lambda>n k. [0]) (\<lambda>k X. Inl ValueError) (\<lambda>A. np_zeros 2 1)
            ?X2 (np_array [[1]]) ?m2 = Inr (?m2, W1, W2)"
    and W1: "nrows W1 = 1" "ncols W1 = 2" "entry W1 0 0 = 1" "entry W1 0 1 = 2"
    by blast
  have nc: "ncols W1 = ncols ?X2" using W1(2) sh2 by simp
  from RBF_weights_closed_form [where choice = "\<lambda>n k. [0]" and kmeans' = "\<lambda>k X. Inl ValueError"
      and pinv = "\<lambda>A. np_zeros 2 1" and X = ?X2 and y = "np_array [[1]]" and m = ?m2
      and m' = ?m2 and ?W1.0 = W1 and ?W2.0 = W2,
      THEN conjunct2, THEN conjunct1, THEN mp, OF conjI[OF run nc]]
  have two: "\<exists>H :: ndarray. nrows H = 1 \<and> ncols H = 2 \<and> entry H 0 0 = 1 \<and> entry H 0 1 = exp (- 0)"
  proof (elim exE conjE)
    fix epsilon2 eps2 and H :: ndarray
    assume H: "nrows H = nrows ?X2" "ncols H = nrows W1 + 1" "\<forall>j < nrows ?X2. entry H j 0 = 1"
      "\<forall>j < nrows ?X2. \<forall>i < nrows W1. entry H j (i + 1)
          = exp (- (eps2 ^ 2 * (\<Sum>k\<leftarrow>[0 ..< ncols ?X2]. (entry ?X2 j k - entry W1 i k) ^ 2)))"
    have "entry H 0 (0 + 1)
        = exp (- (eps2 ^ 2 * (\<Sum>k\<leftarrow>[0 ..< 2]. (entry ?X2 0 k - entry W1 0 k) ^ 2)))"
      using H(4)[rule_format, of 0 0] W1(1) sh2 by simp
    then have h4: "entry H 0 1 = exp (- 0)"
      using W1 by (simp add: upt_rec eval_nat_numeral)
    have h1: "nrows H = 1" using H(1) sh2 by simp
    have h2: "ncols H = 2" using H(2) W1(1) by simp
    have h3: "entry H 0 0 = 1" using H(3) sh2 by simp
    show ?thesis using h1 h2 h3 h4 by blast
  qed
  show ?thesis using one two by blast
qed

section \<open>Prediction on the training inputs\<close>

lemma RBF_predict_eq:
  assumes "RBF_forward X C W epsilon = Inr (r, A1)"
  shows "RBF_predict X C W2 epsilon = np_matmul W2 A1"
  unfolding RBF_predict_def RBF_forward_activation_independent[OF assms]
  by (cases "np_matmul W2 A1") simp_all

text \<open>
  C9. Prediction on the training inputs with the stored centres, the same width
  and the solved weights is the product of the weights with the activation matrix
  that training computed: the activations are recomputed from the same inputs,
  centres and width, and do not depend on the weights. In the first notebook the
  product exists whenever the solver returned one weight per row of that matrix
  (numpy's contract for \<open>lstsq\<close>), and is one row with a value per input.
\<close>

theorem RBF_predict_reproduces_fit:
  "(RBF_train_offline permutation kmeans lstsq X y m = (m', Inr (W1, W2)) \<longrightarrow>
      (\<exists>epsilon c r A1. m' ''epsilon'' = Some epsilon
         \<and> RBF_forward X W1 (np_ones 1 c) epsilon = Inr (r, A1)
         \<and> W2 = np_array [lstsq (np_T A1) (np_ravel y)]
         \<and> RBF_predict X W1 W2 epsilon = np_matmul W2 A1
         \<and> (length (lstsq (np_T A1) (np_ravel y)) = nrows A1 \<longrightarrow>
              (\<exists>fitted. RBF_predict X W1 W2 epsilon = Inr fitted
                 \<and> nrows fitted = 1 \<and> ncols fitted = length (np_ravel y)))))
   \<and> (RBF_train_offline_2D choice kmeans' pinv X y m = Inr (m', W1, W2) \<longrightarrow>
      (\<exists>epsilon H. m' ''epsilon'' = Some epsilon \<and> RBF_hidden_2D X W1 epsilon = Inr H
         \<and> np_matmul (pinv H) (np_reshape_column y) = Inr W2
         \<and> RBF_predict_2D X W1 W2 epsilon = np_matmul H W2))"
proof (intro conjI impI)
  assume a: "RBF_train_offline permutation kmeans lstsq X y m = (m', Inr (W1, W2))"
  from RBF_train_offline_parts[OF a]
  obtain epsilon c r A1 where e: "m' ''epsilon'' = Some epsilon"
    and f: "RBF_forward X W1 (np_ones 1 c) epsilon = Inr (r, A1)"
    and n: "ncols A1 = length (np_ravel y)"
    and W2: "W2 = np_array [lstsq (np_T A1) (np_ravel y)]"
    by blast
  have p: "RBF_predict X W1 W2 epsilon = np_matmul W2 A1"
    by (rule RBF_predict_eq[OF f])
  have "\<exists>fitted. RBF_predict X W1 W2 epsilon = Inr fitted
          \<and> nrows fitted = 1 \<and> ncols fitted = length (np_ravel y)"
    if "length (lstsq (np_T A1) (np_ravel y)) = nrows A1"
    using that n unfolding p unfolding W2 by (simp add: np_matmul_def ncols_np_array)
  then show "\<exists>epsilon c r A1. m' ''epsilon'' = Some epsilon
         \<and> RBF_forward X W1 (np_ones 1 c) epsilon = Inr (r, A1)
         \<and> W2 = np_array [lstsq (np_T A1) (np_ravel y)]
         \<and> RBF_predict X W1 W2 epsilon = np_matmul W2 A1
         \<and> (length (lstsq (np_T A1) (np_ravel y)) = nrows A1 \<longrightarrow>
              (\<exists>fitted. RBF_predict X W1 W2 epsilon = Inr fitted
                 \<and> nrows fitted = 1 \<and> ncols fitted = length (np_ravel y)))"
    using e f W2 p by blast
next
  assume a: "RBF_train_offline_2D choice kmeans' pinv X y m = Inr (m', W1, W2)"
  from RBF_train_offline_2D_parts[OF a] RBF_train_2D_frame[OF a]
  obtain epsilon H where e: "m' ''epsilon'' = Some epsilon"
    and h: "RBF_hidden_2D X W1 epsilon = Inr H"
    and W2: "np_matmul (pinv H) (np_reshape_column y) = Inr W2"
    by blast
  have "RBF_predict_2D X W1 W2 epsilon = np_matmul H W2"
    by (simp add: RBF_predict_2D_def h)
  then show "\<exists>epsilon H. m' ''epsilon'' = Some epsilon \<and> RBF_hidden_2D X W1 epsilon = Inr H
         \<and> np_matmul (pinv H) (np_reshape_column y) = Inr W2
         \<and> RBF_predict_2D X W1 W2 epsilon = np_matmul H W2"
    using e h W2 by blast
qed


theorem RBF_predict_reproduces_fit_witness:
  "(\<exists>fitted. RBF_predict (np_array [[0]]) (np_array [[-8], [-1], [7]]) (np_array [[0, 0, 0, 0]])
        (PyFloat 1) = Inr fitted \<and> nrows fitted = 1 \<and> ncols fitted = 1)
   \<and> (\<exists>W1 W2 H. RBF_hidden_2D (np_array [[1, 2]]) W1 (PyFloat 1) = Inr H
         \<and> np_matmul (np_zeros 2 1) (np_reshape_column (np_array [[1]])) = Inr W2
         \<and> RBF_predict_2D (np_array [[1, 2]]) W1 W2 (PyFloat 1) = np_matmul H W2)"
proof -
  let ?m = "[''centres_generation_method'' \<mapsto> PyStr ''debug'', ''n_hidden'' \<mapsto> PyInt 5,
             ''epsilon'' \<mapsto> PyFloat 1]"
  let ?m' = "[''centres_generation_method'' \<mapsto> PyStr ''debug'', ''n_hidden'' \<mapsto> PyInt 3,
        ''epsilon'' \<mapsto> PyFloat 1, ''W1'' \<mapsto> PyArray (np_array [[-8], [-1], [7]]),
        ''W2'' \<mapsto> PyArray (np_array [[0, 0, 0, 0]])]"
  let ?C = "np_array [[-8], [-1], [7]]"
  let ?X = "np_array [[0]]"
  let ?W = "np_array [[0, 0, 0, 0]]"
  have sh: "ncols ?C = ncols ?X" "nrows ?C = 3"
    by (simp_all add: ncols_np_array)
  have rv: "length (np_ravel ?X) = 1"
    by (simp add: np_ravel_def rows_of_def ncols_np_array)
  from RBF_predict_reproduces_fit [where permutation = "\<lambda>n. []" and kmeans = "\<lambda>k X. Inl ValueError"
      and lstsq = "\<lambda>A b. [0, 0, 0, 0]" and X = ?X and y = ?X and m = ?m
      and ?W1.0 = ?C and ?W2.0 = ?W and m' = ?m', THEN conjunct1, THEN mp, OF debug_run]
  have one: "\<exists>fitted. RBF_predict ?X ?C ?W (PyFloat 1) = Inr fitted
      \<and> nrows fitted = 1 \<and> ncols fitted = 1"
  proof (elim exE conjE)
    fix epsilon c r A1
    assume e: "?m' ''epsilon'' = Some epsilon"
      and f: "RBF_forward ?X ?C (np_ones 1 c) epsilon = Inr (r, A1)"
      and i: "length ((\<lambda>A b. [0, 0, 0, 0 :: real]) (np_T A1) (np_ravel ?X)) = nrows A1 \<longrightarrow>
              (\<exists>fitted. RBF_predict ?X ?C ?W epsilon = Inr fitted
                 \<and> nrows fitted = 1 \<and> ncols fitted = length (np_ravel ?X))"
    from RBF_forward_entries[OF f sh(1)] have "nrows A1 = 4" by (auto simp: sh)
    moreover have "epsilon = PyFloat 1" using e by simp
    ultimately show ?thesis using i rv by simp
  qed
  let ?m2 = "[''n_hidden'' \<mapsto> PyInt 1, ''n_features'' \<mapsto> PyInt 2,
              ''centres_generation_method'' \<mapsto> PyStr ''random'', ''epsilon'' \<mapsto> PyFloat 1]"
  let ?X2 = "np_array [[1, 2]]"
  from run_2D obtain W1 W2 where
    run: "RBF_train_offline_2D (\<lambda>n k. [0]) (\<lambda>k X. Inl ValueError) (\<lambda>A. np_zeros 2 1)
            ?X2 (np_array [[1]]) ?m2 = Inr (?m2, W1, W2)"
    by blast
  from RBF_predict_reproduces_fit [where choice = "\<lambda>n k. [0]" and kmeans' = "\<lambda>k X. Inl ValueError"
      and pinv = "\<lambda>A. np_zeros 2 1" and X = ?X2 and y = "np_array [[1]]" and m = ?m2
      and m' = ?m2 and ?W1.0 = W1 and ?W2.0 = W2, THEN conjunct2, THEN mp, OF run]
  have two: "\<exists>W1 W2 H. RBF_hidden_2D ?X2 W1 (PyFloat 1) = Inr H
         \<and> np_matmul (np_zeros 2 1) (np_reshape_column (np_array [[1]])) = Inr W2
         \<and> RBF_predict_2D ?X2 W1 W2 (PyFloat 1) = np_matmul H W2"
  proof (elim exE conjE)
    fix epsilon H
    assume e: "?m2 ''epsilon'' = Some epsilon"
      and h: "RBF_hidden_2D ?X2 W1 epsilon = Inr H"
      and w: "np_matmul ((\<lambda>A. np_zeros 2 1) H) (np_reshape_column (np_array [[1]])) = Inr W2"
      and p: "RBF_predict_2D ?X2 W1 W2 epsilon = np_matmul H W2"
    have "epsilon = PyFloat 1" using e by simp
    then show ?thesis using h w p by blast
  qed
  show ?thesis using one two by blast
qed

section \<open>Properties of the scalar minimizer\<close>

lemma GD_fold_inv:
  assumes "n < length xh" and "length ph = length xh" and "xh ! 0 = x0" and "ph ! 0 = pol x0"
  shows "case fold (GD_body pol grad eta) [0 ..< n] (x0, xh, ph) of (x, xs, ps) \<Rightarrow>
           length xs = length xh \<and> length ps = length xh \<and> x = xs ! n \<and> xs ! 0 = x0
           \<and> (\<forall>k<n. xs ! (k + 1) = xs ! k - eta * grad (xs ! k))
           \<and> (\<forall>k\<le>n. ps ! k = pol (xs ! k))"
  using assms
proof (induction n)
  case 0
  then show ?case by simp
next
  case (Suc n)
  obtain x xs ps where f: "fold (GD_body pol grad eta) [0 ..< n] (x0, xh, ph) = (x, xs, ps)"
    by (metis prod_cases3)
  from Suc f have ih: "length xs = length xh" "length ps = length xh" "x = xs ! n" "xs ! 0 = x0"
      "\<forall>k<n. xs ! (k + 1) = xs ! k - eta * grad (xs ! k)" "\<forall>k\<le>n. ps ! k = pol (xs ! k)"
    by auto
  from Suc.prems have n: "Suc n < length xh" by simp
  have step: "fold (GD_body pol grad eta) [0 ..< Suc n] (x0, xh, ph)
      = (x - eta * grad x, xs[n + 1 := x - eta * grad x], ps[n + 1 := pol (x - eta * grad x)])"
    by (simp add: f GD_body_def Let_def)
  show ?case
    unfolding step using ih n
    by (auto simp: nth_list_update less_Suc_eq le_Suc_eq)
qed

text \<open>
  C6. For an iteration count \<open>T \<ge> 0\<close> the minimizer returns two sequences of length
  \<open>T + 1\<close>; the first starts at \<open>x0\<close> and satisfies \<open>x (k+1) = x k - eta * f' (x k)\<close> for
  each of the \<open>T\<close> steps, the second holds \<open>f (x k)\<close> at every index; with \<open>T = 0\<close> only
  the initial point is returned; and with \<open>f x = x\<^sup>2\<close>, \<open>f' x = 2 x\<close>, \<open>x0 = 10\<close>,
  \<open>eta = 0.1\<close>, \<open>T = 1\<close> the iterate \<open>x 1\<close> is \<open>8\<close>. The model is a function of its
  inputs, so the result is determined by them.
\<close>

theorem minimization_using_GD_iterates:
  "(0 \<le> T \<longrightarrow>
     (\<exists>xs ps. minimization_using_GD f x0 f' eta T = Inr (xs, ps)
        \<and> length xs = nat T + 1 \<and> length ps = nat T + 1
        \<and> xs ! 0 = x0
        \<and> (\<forall>k<nat T. xs ! (k + 1) = xs ! k - eta * f' (xs ! k))
        \<and> (\<forall>k\<le>nat T. ps ! k = f (xs ! k))))
     \<and> minimization_using_GD f x0 f' eta 0 = Inr ([x0], [f x0])
     \<and> (\<exists>xs ps. minimization_using_GD (\<lambda>x. x ^ 2) 10 (\<lambda>x. 2 * x) (1 / 10) 1 = Inr (xs, ps)
           \<and> length xs = 2 \<and> xs ! 1 = 8)"
proof (intro conjI impI)
  assume T: "0 \<le> T"
  let ?n = "nat (T + 1)"
  let ?xh = "(replicate ?n (0::real))[0 := x0]"
  let ?ph = "(replicate ?n (0::real))[0 := f x0]"
  have len: "nat T < length ?xh" using T by simp
  obtain x xs ps where fo: "fold (GD_body f f' eta) [0 ..< nat T] (x0, ?xh, ?ph) = (x, xs, ps)"
    by (metis prod_cases3)
  have "case fold (GD_body f f' eta) [0 ..< nat T] (x0, ?xh, ?ph) of (x, xs, ps) \<Rightarrow>
           length xs = length ?xh \<and> length ps = length ?xh \<and> x = xs ! nat T \<and> xs ! 0 = x0
           \<and> (\<forall>k<nat T. xs ! (k + 1) = xs ! k - eta * f' (xs ! k))
           \<and> (\<forall>k\<le>nat T. ps ! k = f (xs ! k))"
    using T by (intro GD_fold_inv) simp_all
  then have inv: "length xs = ?n" "length ps = ?n" "xs ! 0 = x0"
      "\<forall>k<nat T. xs ! (k + 1) = xs ! k - eta * f' (xs ! k)" "\<forall>k\<le>nat T. ps ! k = f (xs ! k)"
    by (simp_all add: fo)
  have n: "?n = nat T + 1" using T by simp
  have "minimization_using_GD f x0 f' eta T = Inr (xs, ps)"
    using T by (simp add: minimization_using_GD_def Let_def fo)
  then show "\<exists>xs ps. minimization_using_GD f x0 f' eta T = Inr (xs, ps)
        \<and> length xs = nat T + 1 \<and> length ps = nat T + 1
        \<and> xs ! 0 = x0
        \<and> (\<forall>k<nat T. xs ! (k + 1) = xs ! k - eta * f' (xs ! k))
        \<and> (\<forall>k\<le>nat T. ps ! k = f (xs ! k))"
    using inv n by auto
next
  show "minimization_using_GD f x0 f' eta 0 = Inr ([x0], [f x0])"
    by (simp add: minimization_using_GD_def)
next
  have "minimization_using_GD (\<lambda>x. x ^ 2) 10 (\<lambda>x. 2 * x) (1 / 10) 1
          = Inr ([10, 8], [100, 64])"
    by (simp add: minimization_using_GD_def GD_body_def Let_def eval_nat_numeral)
  then show "\<exists>xs ps. minimization_using_GD (\<lambda>x. x ^ 2) 10 (\<lambda>x. 2 * x) (1 / 10) 1 = Inr (xs, ps)
           \<and> length xs = 2 \<and> xs ! 1 = 8"
    by simp
qed

theorem minimization_using_GD_iterates_witness:
  "(0::int) \<le> 2
   \<and> minimization_using_GD (\<lambda>x. x ^ 2) 10 (\<lambda>x. 2 * x) (1 / 10) 2
       = Inr ([10, 8, 32 / 5], [100, 64, 1024 / 25])"
proof -
  have h: "(0::int) \<le> 2" by simp
  have e: "minimization_using_GD (\<lambda>x. x ^ 2) 10 (\<lambda>x. 2 * x) (1 / 10) 2
       = Inr ([10, 8, 32 / 5], [100, 64, 1024 / 25])"
    by (simp add: minimization_using_GD_def GD_body_def Let_def eval_nat_numeral upt_rec)
  show ?thesis
    using minimization_using_GD_iterates [of 2 "\<lambda>x. x ^ 2" 10 "\<lambda>x. 2 * x" "1 / 10"] e
    by simp
qed

section \<open>The caller's arrays\<close>

text \<open>
  The rules below follow the structure of the store-passing functions: a computation
  that only reads, allocates, or overwrites a buffer allocated after the first \<open>n\<close>
  leaves the first \<open>n\<close> buffers alone, and so does a sequence or a loop of such
  computations.
\<close>

lemma frame_weaken: "frame n f P \<Longrightarrow> (\<And>x. P x \<Longrightarrow> Q x) \<Longrightarrow> frame n f Q"
  by (simp add: frame_def)

lemma frame_returnH: "Q x \<Longrightarrow> frame n (returnH x) Q"
  by (simp add: frame_def returnH_def)

lemma frame_liftE: "frame n (liftE r) (\<lambda>_. True)"
  by (simp add: frame_def liftE_def)

lemma frame_get: "frame n (get r) (\<lambda>_. True)"
  by (simp add: frame_def get_def)

lemma frame_fresh: "frame n (fresh v) (\<lambda>r. n \<le> fst r)"
  by (simp add: frame_def fresh_def)

lemma frame_overwrite: "n \<le> fst r \<Longrightarrow> frame n (overwrite r v) (\<lambda>_. True)"
  by (simp add: frame_def overwrite_def)

lemma frame_bindH:
  assumes "frame n f P" and "\<And>x. P x \<Longrightarrow> frame n (g x) Q"
  shows "frame n (bindH f g) Q"
  unfolding frame_def
proof (intro allI impI)
  fix h :: heap
  assume h: "n \<le> length h"
  obtain r h1 where fh: "f h = (r, h1)"
    by (cases "f h")
  from assms(1) h fh have 1: "n \<le> length h1" "take n h1 = take n h" "\<And>x. r = Inr x \<Longrightarrow> P x"
    by (auto simp: frame_def)
  show "n \<le> length (snd (bindH f g h)) \<and> take n (snd (bindH f g h)) = take n h \<and>
        (\<forall>x. fst (bindH f g h) = Inr x \<longrightarrow> Q x)"
  proof (cases r)
    case (Inl e)
    with fh 1 show ?thesis
      by (simp add: bindH_def)
  next
    case (Inr x)
    with 1 have "frame n (g x) Q"
      by (simp add: assms(2))
    with 1 have "n \<le> length (snd (g x h1)) \<and> take n (snd (g x h1)) = take n h1 \<and>
        (\<forall>z. fst (g x h1) = Inr z \<longrightarrow> Q z)"
      by (simp add: frame_def)
    with fh Inr 1 show ?thesis
      by (simp add: bindH_def)
  qed
qed

lemma frame_bindH_any:
  "frame n f P \<Longrightarrow> (\<And>x. frame n (g x) Q) \<Longrightarrow> frame n (bindH f g) Q"
  by (rule frame_bindH)

lemma frame_case_prod: "(\<And>a b. frame n (g a b) Q) \<Longrightarrow> frame n (case p of (a, b) \<Rightarrow> g a b) Q"
  by (cases p) simp

lemma frame_if:
  "(c \<Longrightarrow> frame n f Q) \<Longrightarrow> (\<not> c \<Longrightarrow> frame n g Q) \<Longrightarrow> frame n (if c then f else g) Q"
  by simp

lemma frame_for_st:
  assumes "\<And>x s. I s \<Longrightarrow> frame n (body x s) I"
  shows "I s \<Longrightarrow> frame n (for_st xs body s) I"
proof (induction xs arbitrary: s)
  case Nil
  then show ?case
    by (simp add: frame_returnH)
next
  case (Cons x xs)
  show ?case
    unfolding for_st.simps
    by (rule frame_bindH[where P = I]) (simp_all add: assms Cons)
qed

lemma frame_un_st: "frame n (un_st f r) (\<lambda>r. n \<le> fst r)"
  unfolding un_st_def
  by (rule frame_bindH_any frame_get frame_liftE frame_fresh)+

lemma frame_bin_st: "frame n (bin_st f r1 r2) (\<lambda>r. n \<le> fst r)"
  unfolding bin_st_def
  by (rule frame_bindH_any frame_get frame_liftE frame_fresh)+

text \<open>Functions that write into no buffer.\<close>

lemma frame_row_view: "frame n (row_view r i) (\<lambda>_. True)"
  unfolding row_view_def
  by (rule frame_bindH_any frame_get frame_if frame_liftE frame_returnH TrueI)+

lemma frame_fresh_any: "frame n (fresh v) (\<lambda>_. True)"
  by (rule frame_weaken[OF frame_fresh]) simp

lemma frame_un_st_any: "frame n (un_st f r) (\<lambda>_. True)"
  by (rule frame_weaken[OF frame_un_st]) simp

lemma frame_bin_st_any: "frame n (bin_st f r1 r2) (\<lambda>_. True)"
  by (rule frame_weaken[OF frame_bin_st]) simp

lemma frame_for_st_any:
  "(\<And>x s. frame n (body x s) (\<lambda>_. True)) \<Longrightarrow> frame n (for_st xs body s) (\<lambda>_. True)"
  by (rule frame_for_st[where I = "\<lambda>_. True"]) simp_all

lemmas frame_steps =
  frame_bindH_any frame_get frame_liftE frame_fresh_any frame_un_st_any frame_bin_st_any
  frame_if frame_case_prod frame_returnH TrueI

lemma frame_MLP_initialize_weights_st:
  "frame n (MLP_initialize_weights_st u1 u2 m) (\<lambda>_. True)"
  unfolding MLP_initialize_weights_st_def
  by (rule frame_steps)+

lemma frame_MLP_MSELIN_forward_st: "frame n (MLP_MSELIN_forward_st P W1 W2) (\<lambda>_. True)"
  unfolding MLP_MSELIN_forward_st_def Let_def
  by (rule frame_steps)+

lemma frame_MLP_MSE_cost_st: "frame n (MLP_MSE_cost_st y_true y_pred) (\<lambda>_. True)"
  unfolding MLP_MSE_cost_st_def
  by (rule frame_steps)+

lemma frame_MLP_MSELIN_backprop_st:
  "frame n (MLP_MSELIN_backprop_st rA2 A1 A0 rZ1 Y_true W1 W2) (\<lambda>_. True)"
  unfolding MLP_MSELIN_backprop_st_def
  by (rule frame_steps)+

lemma frame_MLP_minibatch_st:
  "frame n (MLP_minibatch_st P_shuffled y_shuffled current_eta idx s) (\<lambda>_. True)"
  unfolding MLP_minibatch_st_def Let_def
  by (rule frame_steps frame_MLP_MSELIN_forward_st frame_MLP_MSE_cost_st
        frame_MLP_MSELIN_backprop_st)+

lemma frame_MLP_epoch_st:
  "frame n (MLP_epoch_st permutation P_train y_train eta minibatches e s) (\<lambda>_. True)"
  unfolding MLP_epoch_st_def Let_def
  by (rule frame_steps frame_for_st_any frame_MLP_minibatch_st)+

lemma frame_MLP_MSELIN_train_st:
  "frame n (MLP_MSELIN_train_st u1 u2 permutation P_train y_train m) (\<lambda>_. True)"
  unfolding MLP_MSELIN_train_st_def
  by (rule frame_steps frame_for_st_any frame_MLP_epoch_st frame_MLP_initialize_weights_st)+

lemma frame_RBF_forward_st: "frame n (RBF_forward_st P W1 W2 epsilon) (\<lambda>_. True)"
  unfolding RBF_forward_st_def Let_def
  by (rule frame_steps)+

lemma frame_RBF_initialize_centres_st:
  "frame n (RBF_initialize_centres_st permutation kmeans m Xtrain ytrain) (\<lambda>_. True)"
  unfolding RBF_initialize_centres_st_def Let_def
  by (rule frame_steps)+

lemma frame_RBF_train_offline_st:
  "frame n (RBF_train_offline_st permutation kmeans lstsq X y m) (\<lambda>_. True)"
  unfolding RBF_train_offline_st_def
  by (rule frame_steps frame_RBF_forward_st frame_RBF_initialize_centres_st)+

text \<open>The linear trainer writes into buffers, all of them allocated during the call.\<close>

lemma frame_get_num: "frame n (get_num x) (\<lambda>_. True)"
  unfolding get_num_def
  by (cases x) (simp_all add: frame_get frame_returnH)

lemma frame_bin_num_st: "frame n (bin_num_st f x1 x2) (\<lambda>r. n \<le> fst r)"
  unfolding bin_num_st_def
  by (rule frame_bindH_any frame_get_num frame_liftE frame_fresh)+

lemma frame_iadd:
  assumes "local_num n E"
  shows "frame n (iadd E t) (local_num n)"
proof (cases E)
  case (PyNum c)
  have "frame n (bindH (fresh s) (\<lambda>r. returnH (Arr r))) (local_num n)" for s
    by (rule frame_bindH[OF frame_fresh]) (simp add: frame_returnH local_num_def)
  with PyNum show ?thesis
    unfolding iadd_def
    by (intro frame_bindH_any[OF frame_get_num] frame_bindH_any[OF frame_get]
          frame_bindH_any[OF frame_liftE]) simp
next
  case (Arr r)
  with assms have r: "n \<le> fst r"
    by (simp add: local_num_def)
  have 1: "frame n (bindH (overwrite r s) (\<lambda>_. returnH (Arr r))) (local_num n)" for s
    by (rule frame_bindH[OF frame_overwrite[OF r]]) (simp add: frame_returnH local_num_def r)
  have 2: "frame n (liftE (Inl ValueError) :: pynum hm) (local_num n)"
    by (simp add: frame_def liftE_def)
  from Arr 1 2 show ?thesis
    unfolding iadd_def
    by (intro frame_bindH_any[OF frame_get_num] frame_bindH_any[OF frame_get]
          frame_bindH_any[OF frame_liftE]) simp
qed

lemma frame_setitem: "n \<le> fst r \<Longrightarrow> frame n (setitem r k v) (\<lambda>_. True)"
  unfolding setitem_def
  by (rule frame_bindH_any frame_get frame_overwrite)+

lemma frame_LLS_example_st:
  assumes "local_num n (snd (snd s))"
  shows "frame n (LLS_example_st X y eta i s) (\<lambda>s'. local_num n (snd (snd s')))"
proof -
  obtain w b E where s: "s = (w, b, E)"
    by (cases s)
  with assms have E: "local_num n E"
    by simp
  show ?thesis
    unfolding s LLS_example_st_def Let_def prod.case
    apply (rule frame_bindH_any[OF frame_row_view])
    apply (rule frame_bindH_any[OF frame_bin_st])
    apply (rule frame_bindH_any[OF frame_bin_num_st])
    apply (rule frame_bindH_any[OF frame_row_view])
    apply (rule frame_bindH_any[OF frame_bin_st])
    apply (rule frame_bindH_any[OF frame_un_st])
    apply (rule frame_bindH[OF frame_iadd[OF E]])
    apply (rule frame_bindH_any[OF frame_bin_st])
    apply (rule frame_bindH_any[OF frame_un_st])
    apply (rule frame_bindH_any[OF frame_bin_st])
    apply (rule frame_bindH_any[OF frame_un_st])
    apply (rule frame_bindH_any[OF frame_bin_num_st])
    apply (rule frame_returnH)
    apply simp
    done
qed

lemma frame_LLS_epoch_st:
  assumes "n \<le> fst (snd (snd s))"
  shows "frame n (LLS_epoch_st X y eta N k s) (\<lambda>s'. n \<le> fst (snd (snd s')))"
proof -
  obtain w b avg_E where s: "s = (w, b, avg_E)"
    by (cases s)
  with assms have a: "n \<le> fst avg_E"
    by simp
  have loop: "frame n (for_st [0 ..< N] (LLS_example_st X y eta) (w, b, PyNum 0))
                (\<lambda>s'. local_num n (snd (snd s')))"
  proof (rule frame_for_st[where I = "\<lambda>s'. local_num n (snd (snd s'))"])
    show "local_num n (snd (snd (w, b, PyNum 0)))"
      by (simp add: local_num_def)
  qed (rule frame_LLS_example_st)
  have err: "frame n (liftE (Inl e) :: (aref \<times> pynum \<times> aref) hm)
                (\<lambda>s'. n \<le> fst (snd (snd s')))" for e
    by (simp add: frame_def liftE_def)
  show ?thesis
    unfolding s LLS_epoch_st_def prod.case
    apply (rule frame_bindH_any[OF loop])
    apply (rule frame_case_prod)
    apply (rule frame_case_prod)
    apply (rule frame_if)
     apply (rule err)
    apply (rule frame_bindH_any[OF frame_get_num])
    apply (rule frame_if)
     apply (rule err)
    apply (rule frame_bindH_any[OF frame_setitem[OF a]])
    apply (rule frame_returnH)
    apply (simp add: a)
    done
qed

lemma frame_LLS_by_GD_st: "frame n (LLS_by_GD_st X y eta num_iters) (\<lambda>_. True)"
proof -
  have loop: "n \<le> fst a \<Longrightarrow>
      frame n (for_st [0 ..< k] (LLS_epoch_st X y eta N) (w, b, a)) (\<lambda>_. True)" for k N w b a
    by (rule frame_weaken[OF frame_for_st[where I = "\<lambda>s'. n \<le> fst (snd (snd s'))"]])
       (simp_all add: frame_LLS_epoch_st)
  show ?thesis
    unfolding LLS_by_GD_st_def Let_def
    apply (rule frame_bindH_any[OF frame_get])
    apply (rule frame_bindH_any[OF frame_fresh])
    apply (rule frame_bindH_any[OF frame_liftE])
    apply (rule frame_bindH[OF frame_fresh])
    apply (rule loop)
    apply assumption
    done
qed

lemma frame_unchanged:
  assumes "frame (length h) f Q" and "a < length h"
  shows "snd (f h) ! a = h ! a"
proof -
  from assms(1) have "take (length h) (snd (f h)) = h"
    by (simp add: frame_def)
  then have "take (length h) (snd (f h)) ! a = h ! a"
    by simp
  with assms(2) show ?thesis
    by simp
qed


text \<open>
  The run of the linear trainer on the inputs \<open>[[1], [2]]\<close> and targets \<open>[[1], [2]]\<close>
  with \<open>eta = 0.1\<close> and one epoch, in a store that holds these two arrays: it returns
  \<open>w = 0.44\<close>, \<open>b = 0.27\<close> and the average error \<open>0.9725\<close>, as the store-free model
  does, and both arrays read as before.
\<close>

lemma LLS_by_GD_st_example:
  "(case LLS_by_GD_st (0, id) (1, id) (1 / 10) 1 [np_array [[1], [2]], np_array [[1], [2]]] of
      (Inr (w, b, avg_E), h') \<Rightarrow>
        entry (deref w h') 0 0 = 11 / 25 \<and>
        (case b of Arr r \<Rightarrow> entry (deref r h') 0 0 = 27 / 100 | PyNum c \<Rightarrow> False) \<and>
        entry (deref avg_E h') 0 0 = 389 / 400 \<and>
        rows_of (deref (0, id) h') = [[1], [2]] \<and>
        rows_of (deref (1, id) h') = [[1], [2]]
    | (Inl e, h') \<Rightarrow> False)"
  by code_simp

text \<open>
  C10. No trainer changes the arrays of its caller. Whatever the store holds when
  \<open>LLS_by_GD\<close>, \<open>MLP_MSELIN_train\<close> or \<open>RBF_train_offline\<close> is called, every array
  that exists then, whether it owns its buffer or is a view, and the input matrix and
  the target vector among them, reads exactly the same when the call has returned or
  raised: the trainers write only into buffers they allocated themselves, and the
  shuffled and selected rows are copies. (\<open>KMeans\<close> and \<open>np.linalg.lstsq\<close> are taken
  as functions of the contents of their arguments.)
\<close>

theorem trainers_leave_arrays_unchanged:
  "fst r < length h \<Longrightarrow>
     deref r (snd (LLS_by_GD_st X y eta num_iters h)) = deref r h \<and>
     deref r (snd (MLP_MSELIN_train_st u1 u2 permutation P_train y_train m h)) = deref r h \<and>
     deref r (snd (RBF_train_offline_st permutation' kmeans lstsq X' y' m' h)) = deref r h"
  unfolding deref_def
  using frame_unchanged[OF frame_LLS_by_GD_st, of "fst r" h X y eta num_iters]
    frame_unchanged[OF frame_MLP_MSELIN_train_st, of "fst r" h u1 u2 permutation P_train y_train m]
    frame_unchanged[OF frame_RBF_train_offline_st, of "fst r" h permutation' kmeans lstsq X' y' m']
  by simp

theorem trainers_leave_arrays_unchanged_witness:
  "deref (0, id)
     (snd (LLS_by_GD_st (0, id) (1, id) (1 / 10) 1 [np_array [[1], [2]], np_array [[1], [2]]]))
     = deref (0, id) [np_array [[1], [2]], np_array [[1], [2]]] \<and>
   deref (0, id)
     (snd (MLP_MSELIN_train_st (\<lambda>i j. 1 / 2) (\<lambda>i j. 1 / 2) (\<lambda>e. [1, 0]) (0, id) (1, id)
             example_model [np_array [[1], [2]], np_array [[1], [2]]]))
     = deref (0, id) [np_array [[1], [2]], np_array [[1], [2]]] \<and>
   deref (0, id)
     (snd (RBF_train_offline_st (\<lambda>n. [0 ..< n]) (\<lambda>k A. Inl ValueError)
             (\<lambda>A b. replicate (ncols A) 0) (0, id) (1, id)
             example_model [np_array [[1], [2]], np_array [[1], [2]]]))
     = deref (0, id) [np_array [[1], [2]], np_array [[1], [2]]]"
  using trainers_leave_arrays_unchanged[where r = "(0, id)"
      and h = "[np_array [[1], [2]], np_array [[1], [2]]]"
      and X = "(0, id)" and y = "(1, id)" and eta = "1 / 10" and num_iters = 1
      and ?u1.0 = "\<lambda>i j. 1 / 2" and ?u2.0 = "\<lambda>i j. 1 / 2" and permutation = "\<lambda>e. [1, 0]"
      and P_train = "(0, id)" and y_train = "(1, id)" and m = example_model
      and permutation' = "\<lambda>n. [0 ..< n]" and kmeans = "\<lambda>k A. Inl ValueError"
      and lstsq = "\<lambda>A b. replicate (ncols A) 0" and X' = "(0, id)" and y' = "(1, id)"
      and m' = example_model]
  by simp

end
